theory Spec2Isabelle
  imports Complex_Main "HOL-Library.AList" "HOL-Library.Sublist"
begin

section \<open>Python values used by the assessment model\<close>

text \<open>
  The scoring code of \<^verbatim>\<open>src/assessment/eq_model.py\<close> computes on Python floats. They are
  embedded as \<^typ>\<open>real\<close>: every sum, quotient, \<^verbatim>\<open>min\<close> and \<^verbatim>\<open>max\<close> of the source is the
  exact operation here, so rounding, infinities and NaN are outside the model.
  A Python \<^verbatim>\<open>dict\<close> keeps its keys in insertion order; it is embedded as an association
  list, \<^const>\<open>AList.update\<close> being the assignment \<^verbatim>\<open>d[k] = v\<close> (overwrite in place, or
  append a new key at the end).
\<close>

type_synonym ('k, 'v) dict = "('k \<times> 'v) list"

definition dict_get :: "('k, 'v) dict \<Rightarrow> 'k \<Rightarrow> 'v \<Rightarrow> 'v" where
  \<comment> \<open>\<^verbatim>\<open>d.get(k, default)\<close>\<close>
  "dict_get d k dflt = (case map_of d k of None \<Rightarrow> dflt | Some v \<Rightarrow> v)"

definition dict_of_items :: "('k \<times> 'v) list \<Rightarrow> ('k, 'v) dict" where
  \<comment> \<open>a dict filled by one assignment per item, in order (a loop of \<^verbatim>\<open>d[k] = v\<close>, or a dict
      comprehension)\<close>
  "dict_of_items items = foldl (\<lambda>d (k, v). AList.update k v d) [] items"

section \<open>The feature record and the aggregation loop\<close>

text \<open>The dict returned by \<^verbatim>\<open>analyze_single_response\<close>, one per response.\<close>

record analysis =
  sentiment_label :: string
  sentiment_score :: real
  emotion_scores :: "(string, real) dict"
  primary_emotion :: "string option"
  primary_emotion_score :: real

text \<open>
  The demographics dict of \<^verbatim>\<open>views.py\<close>; a key that is absent is \<^const>\<open>None\<close>
  (\<^verbatim>\<open>response_view\<close> passes \<^verbatim>\<open>{}\<close> when the session holds no demographics).
\<close>

record demographics =
  age :: "int option"
  gender :: "string option"
  profession :: "string option"

text \<open>The local variables that the loop of \<^verbatim>\<open>calculate_eq_scores\<close> updates.\<close>

record agg_state =
  total_sentiment_positive :: real
  total_sentiment_negative :: real
  total_sentiment_neutral :: real
  sentiment_count :: nat
  emotion_totals :: "(string, real) dict"

definition agg_init :: agg_state where
  "agg_init = \<lparr>total_sentiment_positive = 0, total_sentiment_negative = 0,
     total_sentiment_neutral = 0, sentiment_count = 0, emotion_totals = []\<rparr>"

definition add_emotion :: "(string, real) dict \<Rightarrow> string \<times> real \<Rightarrow> (string, real) dict" where
  \<comment> \<open>\<^verbatim>\<open>if label not in totals: totals[label] = 0.0\<close> and then \<^verbatim>\<open>totals[label] += score\<close>\<close>
  "add_emotion totals item =
     (let emotion_label = fst item; score = snd item;
          totals1 = (if map_of totals emotion_label = None
                     then AList.update emotion_label 0 totals else totals)
      in AList.update emotion_label (dict_get totals1 emotion_label 0 + score) totals1)"

definition aggregate_step :: "agg_state \<Rightarrow> analysis \<Rightarrow> agg_state" where
  "aggregate_step st a =
     (let st1 = (if sentiment_label a = ''POSITIVE''
                 then st\<lparr>total_sentiment_positive := total_sentiment_positive st + sentiment_score a\<rparr>
                 else if sentiment_label a = ''NEGATIVE''
                 then st\<lparr>total_sentiment_negative := total_sentiment_negative st + sentiment_score a\<rparr>
                 else st\<lparr>total_sentiment_neutral := total_sentiment_neutral st + sentiment_score a\<rparr>);
          st2 = st1\<lparr>sentiment_count := sentiment_count st1 + 1\<rparr>
      in st2\<lparr>emotion_totals := foldl add_emotion (emotion_totals st2) (emotion_scores a)\<rparr>)"

definition aggregate :: "analysis list \<Rightarrow> agg_state" where
  \<comment> \<open>\<^verbatim>\<open>for analysis in analyses: ...\<close>\<close>
  "aggregate analyses = foldl aggregate_step agg_init analyses"

definition sentiment_ratios :: "agg_state \<Rightarrow> real \<times> real \<times> real" where
  \<comment> \<open>(positive, negative, neutral)\<close>
  "sentiment_ratios st =
     (if sentiment_count st > 0
      then (total_sentiment_positive st / real (sentiment_count st),
            total_sentiment_negative st / real (sentiment_count st),
            total_sentiment_neutral st / real (sentiment_count st))
      else (0.33, 0.33, 0.33))"

definition normalize_emotions :: "(string, real) dict \<Rightarrow> (string, real) dict" where
  "normalize_emotions totals =
     (let total_emotion_score = sum_list (map snd totals)
      in if total_emotion_score > 0
         then dict_of_items (map (\<lambda>(emotion_label, total_score).
                (emotion_label, total_score / total_emotion_score)) totals)
         else dict_of_items (map (\<lambda>label.
                (label, if totals \<noteq> [] then 1 / real (length totals) else 0)) (map fst totals)))"

section \<open>The six category scores and the overall score\<close>

record category_scores =
  self_awareness :: real
  emotional_resilience :: real
  conflict_resolution :: real
  cultural_awareness :: real
  empathy :: real
  stress_management :: real

definition get_age :: "demographics \<Rightarrow> int" where
  \<comment> \<open>\<^verbatim>\<open>demographics.get('age', 30)\<close>\<close>
  "get_age d = (case age d of None \<Rightarrow> 30 | Some a \<Rightarrow> a)"

definition age_factor :: "demographics \<Rightarrow> real" where
  \<comment> \<open>\<^verbatim>\<open>min(1.0, age / 60.0)\<close>, the age an \<^verbatim>\<open>int\<close> and the division Python's true division\<close>
  "age_factor d = min 1.0 (real_of_int (get_age d) / 60.0)"

definition values_mean :: "category_scores \<Rightarrow> real" where
  \<comment> \<open>\<^verbatim>\<open>np.mean(list(category_scores.values()))\<close>: the dict has exactly six entries\<close>
  "values_mean cs =
     sum_list [self_awareness cs, emotional_resilience cs, conflict_resolution cs,
               cultural_awareness cs, empathy cs, stress_management cs] / 6"

definition calculate_eq_scores :: "analysis list \<Rightarrow> demographics \<Rightarrow> category_scores \<times> real" where
  "calculate_eq_scores analyses d =
     (let st = aggregate analyses;
          positive_ratio = fst (sentiment_ratios st);
          negative_ratio = fst (snd (sentiment_ratios st));
          neutral_ratio = snd (snd (sentiment_ratios st));
          emotion_ratios = normalize_emotions (emotion_totals st);
          joy_ratio = dict_get emotion_ratios ''joy'' 0;
          sadness_ratio = dict_get emotion_ratios ''sadness'' 0;
          anger_ratio = dict_get emotion_ratios ''anger'' 0;
          fear_ratio = dict_get emotion_ratios ''fear'' 0;
          disgust_ratio = dict_get emotion_ratios ''disgust'' 0;
          surprise_ratio = dict_get emotion_ratios ''surprise'' 0;
          love_ratio = dict_get emotion_ratios ''love'' 0;
          neutral_emotion_ratio = dict_get emotion_ratios ''neutral'' 0;
          self_awareness0 = 50 + 50 * (joy_ratio + love_ratio - sadness_ratio - anger_ratio);
          emotional_resilience0 = 50 + 50 * (positive_ratio - negative_ratio - fear_ratio * 0.5);
          conflict_resolution0 = 50 + 50 * (positive_ratio - anger_ratio - disgust_ratio);
          cultural_awareness0 = 50 + 50 * (neutral_ratio + love_ratio - disgust_ratio);
          empathy0 = 50 + 50 * (love_ratio + sadness_ratio * 0.7 - disgust_ratio);
          stress_management0 = 50 + 50 * (positive_ratio - fear_ratio - anger_ratio);
          emotional_resilience1 = emotional_resilience0 + age_factor d * 5;
          stress_management1 = stress_management0 + age_factor d * 3;
          scores = \<lparr>self_awareness = max 0 (min 100 self_awareness0),
                    emotional_resilience = max 0 (min 100 emotional_resilience1),
                    conflict_resolution = max 0 (min 100 conflict_resolution0),
                    cultural_awareness = max 0 (min 100 cultural_awareness0),
                    empathy = max 0 (min 100 empathy0),
                    stress_management = max 0 (min 100 stress_management1)\<rparr>
      in (scores, values_mean scores))"

definition interpret_overall_eq :: "real \<Rightarrow> string" where
  "interpret_overall_eq overall_score =
     (if overall_score < 40 then ''Low EQ''
      else if overall_score \<le> 70 then ''Average EQ''
      else ''High EQ'')"

section \<open>Strings\<close>

text \<open>
  A Python \<^verbatim>\<open>str\<close> is embedded as a \<^typ>\<open>string\<close> whose characters are the code points
  below 256. \<^verbatim>\<open>str.strip()\<close> and \<^verbatim>\<open>str.split()\<close> without arguments cut at the characters
  for which \<^verbatim>\<open>str.isspace\<close> holds; below 256 these are the twelve of \<open>is_space\<close>.
\<close>

definition is_space :: "char \<Rightarrow> bool" where
  "is_space c = (c \<in> {CHR 0x09, CHR 0x0A, CHR 0x0B, CHR 0x0C, CHR 0x0D, CHR 0x1C, CHR 0x1D,
     CHR 0x1E, CHR 0x1F, CHR '' '', CHR 0x85, CHR 0xA0})"

definition strip :: "string \<Rightarrow> string" where
  "strip s = rev (dropWhile is_space (rev (dropWhile is_space s)))"

fun split_from :: "string \<Rightarrow> string \<Rightarrow> string list" where
  \<comment> \<open>the scan of \<^verbatim>\<open>str.split()\<close>: \<open>cur\<close> is the word read so far\<close>
  "split_from cur [] = (if cur = [] then [] else [cur])"
| "split_from cur (c # cs) =
     (if is_space c then (if cur = [] then split_from [] cs else cur # split_from [] cs)
      else split_from (cur @ [c]) cs)"

definition split :: "string \<Rightarrow> string list" where
  "split s = split_from [] s"

definition upper_letters :: string where
  "upper_letters = ''ABCDEFGHIJKLMNOPQRSTUVWXYZ'' @
     [CHR 0xC0, CHR 0xC1, CHR 0xC2, CHR 0xC3, CHR 0xC4, CHR 0xC5, CHR 0xC6, CHR 0xC7,
      CHR 0xC8, CHR 0xC9, CHR 0xCA, CHR 0xCB, CHR 0xCC, CHR 0xCD, CHR 0xCE, CHR 0xCF,
      CHR 0xD0, CHR 0xD1, CHR 0xD2, CHR 0xD3, CHR 0xD4, CHR 0xD5, CHR 0xD6,
      CHR 0xD8, CHR 0xD9, CHR 0xDA, CHR 0xDB, CHR 0xDC, CHR 0xDD, CHR 0xDE]"

definition lower_letters :: string where
  "lower_letters = ''abcdefghijklmnopqrstuvwxyz'' @
     [CHR 0xE0, CHR 0xE1, CHR 0xE2, CHR 0xE3, CHR 0xE4, CHR 0xE5, CHR 0xE6, CHR 0xE7,
      CHR 0xE8, CHR 0xE9, CHR 0xEA, CHR 0xEB, CHR 0xEC, CHR 0xED, CHR 0xEE, CHR 0xEF,
      CHR 0xF0, CHR 0xF1, CHR 0xF2, CHR 0xF3, CHR 0xF4, CHR 0xF5, CHR 0xF6,
      CHR 0xF8, CHR 0xF9, CHR 0xFA, CHR 0xFB, CHR 0xFC, CHR 0xFD, CHR 0xFE]"

definition lower_char :: "char \<Rightarrow> char" where
  "lower_char c = (case map_of (zip upper_letters lower_letters) c of None \<Rightarrow> c | Some l \<Rightarrow> l)"

definition lower :: "string \<Rightarrow> string" where
  \<comment> \<open>\<^verbatim>\<open>str.lower()\<close>\<close>
  "lower s = map lower_char s"

definition upper_char :: "char \<Rightarrow> string" where
  \<comment> \<open>the sharp s (0xDF) becomes two letters; the upper-case forms of 0xB5 and 0xFF lie
      beyond 255 and are no ASCII letters: the model leaves these two characters as they are\<close>
  "upper_char c =
     (if c = CHR 0xDF then ''SS''
      else case map_of (zip lower_letters upper_letters) c of None \<Rightarrow> [c] | Some u \<Rightarrow> [u])"

definition upper :: "string \<Rightarrow> string" where
  \<comment> \<open>\<^verbatim>\<open>str.upper()\<close>\<close>
  "upper s = concat (map upper_char s)"

fun contains :: "string \<Rightarrow> string \<Rightarrow> bool" where
  \<comment> \<open>\<^verbatim>\<open>sub in s\<close>\<close>
  "contains sub [] \<longleftrightarrow> sub = []"
| "contains sub (c # cs) \<longleftrightarrow> take (length sub) (c # cs) = sub \<or> contains sub cs"

fun nat_to_str :: "nat \<Rightarrow> string" where
  \<comment> \<open>the decimal digits that an f-string prints for a non-negative \<^verbatim>\<open>int\<close>\<close>
  "nat_to_str n =
     (if n < 10 then [''0123456789'' ! n]
      else nat_to_str (n div 10) @ [''0123456789'' ! (n mod 10)])"

declare nat_to_str.simps [simp del]

definition int_to_str :: "int \<Rightarrow> string" where
  "int_to_str i = (if i < 0 then ''-'' @ nat_to_str (nat (- i)) else nat_to_str (nat i))"

section \<open>Scenario generation\<close>

definition teacher_scenario :: string where
  "teacher_scenario =
     ''You are in the middle of teaching an important lesson when a student '' @
     ''suddenly starts loudly criticizing your teaching method in front of the entire class, '' @
     ''accusing you of being unfair and biased. Several other students begin nodding in '' @
     ''agreement, and the atmosphere becomes tense and uncomfortable. You have 10 minutes '' @
     ''left in the class and an important topic to cover before the upcoming exam.''"

definition healthcare_scenario :: string where
  "healthcare_scenario =
     ''You are working in a busy hospital ward during a night shift. A patient'' @ [CHR 0x27] @ ''s family member '' @
     ''approaches you with extreme anger, blaming you for a delayed medication dose that '' @
     ''has caused their relative discomfort. They raise their voice, attracting attention from '' @
     ''other patients and staff. The family member threatens to file a complaint and questions '' @
     ''your competence. Meanwhile, you have other critical patients requiring immediate attention.''"

definition management_scenario :: string where
  "management_scenario =
     ''You are leading a team project with a tight deadline. Two of your team members are '' @
     ''engaged in a heated argument during a critical meeting, each blaming the other for '' @
     ''missed deadlines and poor quality work. The conflict escalates, with personal attacks '' @
     ''being exchanged. The rest of the team looks uncomfortable, and the project deadline '' @
     ''is in 48 hours. Your supervisor is expecting a status update in 2 hours.''"

definition generic_scenario :: string where
  "generic_scenario =
     ''You have just presented your work to a group of colleagues and stakeholders. '' @
     ''A senior colleague publicly criticizes your approach, pointing out what they perceive '' @
     ''as fundamental flaws in your methodology. Their tone is condescending, and several '' @
     ''others in the room begin questioning your decisions. You spent weeks preparing this '' @
     ''work and believe in its value, but now you'' @ [CHR 0x27] @ ''re facing public scrutiny and doubt.''"

definition generate_scenario :: "int \<Rightarrow> string \<Rightarrow> string \<Rightarrow> string" where
  "generate_scenario age_arg gender_arg profession_arg =
     (let profession_lower = lower profession_arg
      in if contains ''teacher'' profession_lower \<or> contains ''lecturer'' profession_lower
            \<or> contains ''educator'' profession_lower
         then teacher_scenario
         else if contains ''nurse'' profession_lower \<or> contains ''doctor'' profession_lower
            \<or> contains ''physician'' profession_lower
         then healthcare_scenario
         else if contains ''manager'' profession_lower \<or> contains ''lead'' profession_lower
            \<or> contains ''director'' profession_lower
         then management_scenario
         else generic_scenario)"

section \<open>The model object\<close>

text \<open>
  The two classifier pipelines are external: a call returns a Python value or raises. The
  values are those that the extractor tells apart by type.
\<close>

datatype py_error = AttributeError | TypeError | ValueError | ClassifierFault

datatype pyval =
    PyNone
  | PyBool bool
  | PyInt int
  | PyFloat real
  | PyStr string
  | PyList "pyval list"
  | PyTuple "pyval list"
  | PyDict "(pyval \<times> pyval) list"

text \<open>The attributes that \<^verbatim>\<open>__init__\<close> sets on \<^verbatim>\<open>AdvancedEQAssessmentModel\<close>.\<close>

record eq_model =
  sentiment_pipeline :: "string \<Rightarrow> py_error + pyval"
  emotion_pipeline :: "string \<Rightarrow> py_error + pyval"
  eq_categories :: "string list"
  min_words_per_response :: int

definition init_model ::
  "(string \<Rightarrow> py_error + pyval) \<Rightarrow> (string \<Rightarrow> py_error + pyval) \<Rightarrow> eq_model" where
  \<comment> \<open>\<^verbatim>\<open>__init__\<close>, the two loaded pipelines given\<close>
  "init_model sp ep =
     \<lparr>sentiment_pipeline = sp, emotion_pipeline = ep,
      eq_categories = [''self_awareness'', ''emotional_resilience'', ''conflict_resolution'',
        ''cultural_awareness'', ''empathy'', ''stress_management''],
      min_words_per_response = 10\<rparr>"

section \<open>Response validation\<close>

definition empty_message :: "nat \<Rightarrow> string" where
  "empty_message i =
     ''Answer '' @ nat_to_str (i + 1) @ '' cannot be empty. Please provide a thoughtful response.''"

definition short_message :: "nat \<Rightarrow> int \<Rightarrow> nat \<Rightarrow> string" where
  "short_message i min_words n =
     ''Answer '' @ nat_to_str (i + 1) @ '' is too short. Please provide at least '' @
     int_to_str min_words @ '' words '' @
     ''(currently '' @ nat_to_str n @ '' words). Your response should be detailed and reflective.''"

fun validate_from :: "int \<Rightarrow> nat \<Rightarrow> string list \<Rightarrow> bool \<times> string option" where
  \<comment> \<open>the loop \<^verbatim>\<open>for i, response in enumerate(responses)\<close>, from index \<open>i\<close> on\<close>
  "validate_from min_words i [] = (True, None)"
| "validate_from min_words i (response # rest) =
     (if response = [] \<or> strip response = [] then (False, Some (empty_message i))
      else let words = split (strip response)
           in if int (length words) < min_words
              then (False, Some (short_message i min_words (length words)))
              else validate_from min_words (i + 1) rest)"

definition validate_responses :: "eq_model \<Rightarrow> string list \<Rightarrow> bool \<times> string option" where
  "validate_responses self responses = validate_from (min_words_per_response self) 0 responses"

section \<open>Feature extraction\<close>

text \<open>
  \<^verbatim>\<open>analyze_single_response\<close> inspects whatever the two pipelines return, so their results
  are values of \<^typ>\<open>pyval\<close> and every attribute access or conversion that Python can refuse
  is a branch returning an error. Two builtins are parameters: \<^verbatim>\<open>str(x)\<close> for an \<open>x\<close> that is
  no string, and the parser behind \<^verbatim>\<open>float(s)\<close> for a string \<open>s\<close> (\<^const>\<open>None\<close> where it
  raises \<^verbatim>\<open>ValueError\<close>).
\<close>

record py_builtins =
  py_str :: "pyval \<Rightarrow> string"
  py_parse_float :: "string \<Rightarrow> real option"

definition str_of :: "py_builtins \<Rightarrow> pyval \<Rightarrow> string" where
  \<comment> \<open>\<^verbatim>\<open>str(v)\<close>\<close>
  "str_of b v = (case v of PyStr s \<Rightarrow> s | _ \<Rightarrow> py_str b v)"

definition py_float :: "py_builtins \<Rightarrow> pyval \<Rightarrow> py_error + real" where
  \<comment> \<open>\<^verbatim>\<open>float(v)\<close>\<close>
  "py_float b v =
     (case v of
        PyFloat r \<Rightarrow> Inr r
      | PyInt i \<Rightarrow> Inr (real_of_int i)
      | PyBool t \<Rightarrow> Inr (if t then 1 else 0)
      | PyStr s \<Rightarrow> (case py_parse_float b s of None \<Rightarrow> Inl ValueError | Some r \<Rightarrow> Inr r)
      | _ \<Rightarrow> Inl TypeError)"

definition is_number :: "pyval \<Rightarrow> bool" where
  \<comment> \<open>\<^verbatim>\<open>isinstance(v, (int, float))\<close>; \<^verbatim>\<open>bool\<close> is a subclass of \<^verbatim>\<open>int\<close>\<close>
  "is_number v = (case v of PyInt _ \<Rightarrow> True | PyFloat _ \<Rightarrow> True | PyBool _ \<Rightarrow> True | _ \<Rightarrow> False)"

definition truthy :: "pyval \<Rightarrow> bool" where
  \<comment> \<open>the truth value that \<^verbatim>\<open>if v:\<close> tests\<close>
  "truthy v =
     (case v of
        PyNone \<Rightarrow> False
      | PyBool t \<Rightarrow> t
      | PyInt i \<Rightarrow> i \<noteq> 0
      | PyFloat r \<Rightarrow> r \<noteq> 0
      | PyStr s \<Rightarrow> s \<noteq> []
      | PyList xs \<Rightarrow> xs \<noteq> []
      | PyTuple xs \<Rightarrow> xs \<noteq> []
      | PyDict kv \<Rightarrow> kv \<noteq> [])"

definition py_get :: "pyval \<Rightarrow> string \<Rightarrow> pyval \<Rightarrow> py_error + pyval" where
  \<comment> \<open>\<^verbatim>\<open>v.get(key, default)\<close>: only a dict has the method\<close>
  "py_get v k dflt =
     (case v of PyDict kv \<Rightarrow> Inr (dict_get kv (PyStr k) dflt) | _ \<Rightarrow> Inl AttributeError)"

definition str_upper :: "pyval \<Rightarrow> py_error + string" where
  \<comment> \<open>\<^verbatim>\<open>v.upper()\<close>: only a string has the method\<close>
  "str_upper v = (case v of PyStr s \<Rightarrow> Inr (upper s) | _ \<Rightarrow> Inl AttributeError)"

definition str_lower :: "pyval \<Rightarrow> py_error + string" where
  \<comment> \<open>\<^verbatim>\<open>v.lower()\<close>\<close>
  "str_lower v = (case v of PyStr s \<Rightarrow> Inr (lower s) | _ \<Rightarrow> Inl AttributeError)"

definition sentiment_of :: "py_builtins \<Rightarrow> pyval \<Rightarrow> py_error + string \<times> real" where
  \<comment> \<open>lines 168 to 186: the shape of the sentiment result, then label and score\<close>
  "sentiment_of b sentiment_result_raw =
     (let sentiment_result =
            (case sentiment_result_raw of
               PyList (x # xs) \<Rightarrow> x
             | PyDict kv \<Rightarrow> PyDict kv
             | _ \<Rightarrow> PyDict [(PyStr ''label'', PyStr ''NEUTRAL''), (PyStr ''score'', PyFloat 0.5)])
      in case py_get sentiment_result ''label'' (PyStr ''NEUTRAL'') of
           Inl e \<Rightarrow> Inl e
         | Inr label_value \<Rightarrow>
        (case str_upper label_value of
           Inl e \<Rightarrow> Inl e
         | Inr label_upper \<Rightarrow>
        (case py_get sentiment_result ''score'' (PyFloat 0.5) of
           Inl e \<Rightarrow> Inl e
         | Inr score_value \<Rightarrow>
        (case py_float b score_value of
           Inl e \<Rightarrow> Inl e
         | Inr score_float \<Rightarrow>
             Inr (if label_upper \<in> set [''POSITIVE'', ''POS''] then ''POSITIVE''
                  else if label_upper \<in> set [''NEGATIVE'', ''NEG''] then ''NEGATIVE''
                  else ''NEUTRAL'', score_float)))))"

definition record_entry ::
  "py_builtins \<Rightarrow> (pyval \<times> pyval) list \<Rightarrow> (string, real) dict \<Rightarrow> py_error + (string, real) dict" where
  \<comment> \<open>a dict with label and score, as an item of the list (lines 204 to 208) and as the
      whole result (lines 232 to 236): the same four statements\<close>
  "record_entry b kv acc =
     (case str_lower (dict_get kv (PyStr ''label'') (PyStr [])) of
        Inl e \<Rightarrow> Inl e
      | Inr label \<Rightarrow>
          let score = dict_get kv (PyStr ''score'') (PyFloat 0.0)
          in if label \<noteq> []
             then (case py_float b score of
                     Inl e \<Rightarrow> Inl e
                   | Inr f \<Rightarrow> Inr (AList.update label f acc))
             else Inr acc)"

definition pair_entry ::
  "py_builtins \<Rightarrow> pyval list \<Rightarrow> (string, real) dict \<Rightarrow> py_error + (string, real) dict" where
  \<comment> \<open>a list or tuple of at least two elements (lines 209 to 227)\<close>
  "pair_entry b xs acc =
     (let label = lower (str_of b (xs ! 0));
          score_value = xs ! 1
      in case (case score_value of
                 PyDict kv \<Rightarrow> py_float b (dict_get kv (PyStr ''score'') (PyFloat 0.0))
               | _ \<Rightarrow>
                   if is_number score_value then py_float b score_value
                   else (case py_float b score_value of
                           Inl ValueError \<Rightarrow> Inr 0.0
                         | Inl TypeError \<Rightarrow> Inr 0.0
                         | Inl e \<Rightarrow> Inl e
                         | Inr f \<Rightarrow> Inr f)) of
           Inl e \<Rightarrow> Inl e
         | Inr score \<Rightarrow> Inr (if label \<noteq> [] then AList.update label score acc else acc))"

fun emotion_items ::
  "py_builtins \<Rightarrow> (string, real) dict \<Rightarrow> pyval list \<Rightarrow> py_error + (string, real) dict" where
  \<comment> \<open>\<^verbatim>\<open>for emotion_item in emotion_results\<close>\<close>
  "emotion_items b acc [] = Inr acc"
| "emotion_items b acc (emotion_item # rest) =
     (case (case emotion_item of
              PyDict kv \<Rightarrow> record_entry b kv acc
            | PyList xs \<Rightarrow> if length xs \<ge> 2 then pair_entry b xs acc else Inr acc
            | PyTuple xs \<Rightarrow> if length xs \<ge> 2 then pair_entry b xs acc else Inr acc
            | _ \<Rightarrow> Inr acc) of
        Inl e \<Rightarrow> Inl e
      | Inr acc' \<Rightarrow> emotion_items b acc' rest)"

fun emotion_mapping ::
  "py_builtins \<Rightarrow> (string, real) dict \<Rightarrow> (pyval \<times> pyval) list \<Rightarrow> py_error + (string, real) dict" where
  \<comment> \<open>\<^verbatim>\<open>for key, value in emotion_results.items()\<close> (lines 239 to 243)\<close>
  "emotion_mapping b acc [] = Inr acc"
| "emotion_mapping b acc ((key, v) # rest) =
     (if is_number v
      then (case py_float b v of
              Inl e \<Rightarrow> Inl e
            | Inr f \<Rightarrow> emotion_mapping b (AList.update (lower (str_of b key)) f acc) rest)
      else (case v of
              PyDict kv \<Rightarrow>
                (case map_of kv (PyStr ''score'') of
                   Some score_value \<Rightarrow>
                     (case py_float b score_value of
                        Inl e \<Rightarrow> Inl e
                      | Inr f \<Rightarrow> emotion_mapping b (AList.update (lower (str_of b key)) f acc) rest)
                 | None \<Rightarrow> emotion_mapping b acc rest)
            | _ \<Rightarrow> emotion_mapping b acc rest))"

definition emotion_scores_of :: "py_builtins \<Rightarrow> pyval \<Rightarrow> py_error + (string, real) dict" where
  \<comment> \<open>lines 198 to 243\<close>
  "emotion_scores_of b emotion_results =
     (if truthy emotion_results
      then (case emotion_results of
              PyList items \<Rightarrow> emotion_items b [] items
            | PyDict kv \<Rightarrow>
                if map_of kv (PyStr ''label'') \<noteq> None then record_entry b kv []
                else emotion_mapping b [] kv
            | _ \<Rightarrow> Inr [])
      else Inr [])"

definition max_by_score :: "string \<times> real \<Rightarrow> (string \<times> real) list \<Rightarrow> string \<times> real" where
  \<comment> \<open>\<^verbatim>\<open>max(d, key=d.get)\<close> keeps the first of the entries with the greatest score\<close>
  "max_by_score p ps = foldl (\<lambda>best q. if snd q > snd best then q else best) p ps"

definition primary_of :: "(string, real) dict \<Rightarrow> string option \<times> real" where
  \<comment> \<open>lines 246 to 250\<close>
  "primary_of scores =
     (case scores of
        [] \<Rightarrow> (None, 0.0)
      | p # ps \<Rightarrow>
          let primary = fst (max_by_score p ps)
          in (Some primary, dict_get scores primary 0.0))"

definition analyze_single_response :: "py_builtins \<Rightarrow> eq_model \<Rightarrow> string \<Rightarrow> py_error + analysis" where
  "analyze_single_response b self text =
     (case sentiment_pipeline self text of
        Inl e \<Rightarrow> Inl e
      | Inr sentiment_result_raw \<Rightarrow>
     (case sentiment_of b sentiment_result_raw of
        Inl e \<Rightarrow> Inl e
      | Inr sentiment \<Rightarrow>
          let emotion_results =
                (case emotion_pipeline self text of Inl e \<Rightarrow> PyList [] | Inr v \<Rightarrow> v)
          in (case emotion_scores_of b emotion_results of
                Inl e \<Rightarrow> Inl e
              | Inr scores \<Rightarrow>
                  Inr \<lparr>sentiment_label = fst sentiment,
                       sentiment_score = snd sentiment,
                       emotion_scores = scores,
                       primary_emotion = fst (primary_of scores),
                       primary_emotion_score = snd (primary_of scores)\<rparr>)))"

fun analyze_responses :: "py_builtins \<Rightarrow> eq_model \<Rightarrow> string list \<Rightarrow> py_error + analysis list" where
  "analyze_responses b self [] = Inr []"
| "analyze_responses b self (response # rest) =
     (case analyze_single_response b self response of
        Inl e \<Rightarrow> Inl e
      | Inr a \<Rightarrow>
          (case analyze_responses b self rest of
             Inl e \<Rightarrow> Inl e
           | Inr as \<Rightarrow> Inr (a # as)))"

section \<open>Definitions that follow the specification\<close>

text \<open>
  The definitions of this section translate no function of the source. They write down what
  the specification says, or name the inputs that a theorem is about, so that the theorems
  below can compare the code with the specification.
\<close>

subsection \<open>Scoring formulas (specification section 4.5)\<close>

definition clamp_score :: "real \<Rightarrow> real" where
  "clamp_score x = max 0 (min 100 x)"

definition spec_age_factor :: "int \<Rightarrow> real" where
  "spec_age_factor a = min 1 (real_of_int a / 60)"

definition spec_category_scores :: "real \<times> real \<times> real \<Rightarrow> (string \<Rightarrow> real) \<Rightarrow> real \<Rightarrow> category_scores" where
  "spec_category_scores s e af =
     (case s of (positive, negative, neutral) \<Rightarrow>
       \<lparr>self_awareness = clamp_score (50 + 50 * (e ''joy'' + e ''love'' - e ''sadness'' - e ''anger'')),
        emotional_resilience = clamp_score (50 + 50 * (positive - negative - 0.5 * e ''fear'') + af * 5),
        conflict_resolution = clamp_score (50 + 50 * (positive - e ''anger'' - e ''disgust'')),
        cultural_awareness = clamp_score (50 + 50 * (neutral + e ''love'' - e ''disgust'')),
        empathy = clamp_score (50 + 50 * (e ''love'' + 0.7 * e ''sadness'' - e ''disgust'')),
        stress_management = clamp_score (50 + 50 * (positive - e ''fear'' - e ''anger'') + af * 3)\<rparr>)"

definition spec_overall :: "category_scores \<Rightarrow> real" where
  "spec_overall cs = (self_awareness cs + emotional_resilience cs + conflict_resolution cs +
      cultural_awareness cs + empathy cs + stress_management cs) / 6"

subsection \<open>Aggregation (specification sections 3 and 4.4)\<close>

text \<open>
  The part of the feature record of section 3 on which the aggregation relies: the
  sentiment label is one of the three labels, the emotion scores form a mapping (no label
  twice) and no emotion score is negative.
\<close>

definition feature_record :: "analysis \<Rightarrow> bool" where
  "feature_record a \<longleftrightarrow>
     sentiment_label a \<in> {''POSITIVE'', ''NEGATIVE'', ''NEUTRAL''} \<and>
     distinct (map fst (emotion_scores a)) \<and>
     (\<forall>p \<in> set (emotion_scores a). 0 \<le> snd p)"

text \<open>
  The sum of the sentiment scores of the responses that bear a label; the total of an
  emotion over all responses (a response without the emotion adds nothing); the emotion
  labels that were observed; the grand sum of the emotion totals.
\<close>

definition label_sum :: "string \<Rightarrow> analysis list \<Rightarrow> real" where
  "label_sum l analyses =
     sum_list (map sentiment_score (filter (\<lambda>a. sentiment_label a = l) analyses))"

definition emotion_total :: "analysis list \<Rightarrow> string \<Rightarrow> real" where
  "emotion_total analyses l = sum_list (map (\<lambda>a. dict_get (emotion_scores a) l 0) analyses)"

definition observed_labels :: "analysis list \<Rightarrow> string list" where
  "observed_labels analyses = remdups (concat (map (map fst \<circ> emotion_scores) analyses))"

definition grand_total :: "analysis list \<Rightarrow> real" where
  "grand_total analyses = sum_list (map (emotion_total analyses) (observed_labels analyses))"

subsection \<open>The value stated for neutral responses without emotions (section 8)\<close>

text \<open>
  "Exactly 50 plus the age adjustment on the two age-sensitive categories, clamped": four
  categories at 50, the other two at 50 plus their adjustment, clamped, and the mean of the six.
\<close>

definition claimed_neutral_overall :: "demographics \<Rightarrow> real" where
  "claimed_neutral_overall d =
     (50 + clamp_score (50 + age_factor d * 5) + 50 + 50 + 50 + clamp_score (50 + age_factor d * 3)) / 6"

text \<open>
  A response that the sentiment classifier left at the default, a neutral response with
  the score 0.9, and a user aged 30.
\<close>

definition neutral_half :: analysis where
  "neutral_half = \<lparr>sentiment_label = ''NEUTRAL'', sentiment_score = 0.5, emotion_scores = [],
     primary_emotion = None, primary_emotion_score = 0.0\<rparr>"

definition neutral_high :: analysis where
  "neutral_high = \<lparr>sentiment_label = ''NEUTRAL'', sentiment_score = 0.9, emotion_scores = [],
     primary_emotion = None, primary_emotion_score = 0.0\<rparr>"

definition aged_30 :: demographics where
  "aged_30 = \<lparr>age = Some 30, gender = Some ''other'', profession = Some ''Teacher''\<rparr>"

subsection \<open>Validation (specification section 4.2)\<close>

text \<open>
  A response is blank when it is empty or whitespace-only; its word count is the number of
  whitespace-separated tokens, computed as the source does; it fails validation when it is
  blank or has fewer words than the minimum.
\<close>

definition is_blank :: "string \<Rightarrow> bool" where
  "is_blank r \<longleftrightarrow> (\<forall>c \<in> set r. is_space c)"

definition word_count :: "string \<Rightarrow> nat" where
  "word_count r = length (split (strip r))"

definition fails_validation :: "int \<Rightarrow> string \<Rightarrow> bool" where
  "fails_validation m r \<longleftrightarrow> is_blank r \<or> int (word_count r) < m"

text \<open>The number that a string of decimal digits denotes.\<close>

definition digit_value :: "char \<Rightarrow> nat" where
  "digit_value c = length (takeWhile (\<lambda>d. d \<noteq> c) ''0123456789'')"

definition decimal_value :: "string \<Rightarrow> nat" where
  "decimal_value s = foldl (\<lambda>a c. 10 * a + digit_value c) 0 s"

subsection \<open>Classifier results of the shapes that the extractor recognises\<close>

text \<open>
  A record is a dict whose label, if present, is a string and whose score, if present, is a
  number. A sentiment result has a recognised shape when it is a record, a list that starts
  with a record, or anything that is neither a dict nor a non-empty list. An emotion
  result has a recognised shape when it is a list of records and of pairs (a pair whose
  second element is a dict needs a numeric score in it), a record, a mapping from labels to
  numbers or to dicts with a numeric score, or anything that is neither a list nor a dict.
\<close>

definition is_str :: "pyval \<Rightarrow> bool" where
  "is_str v = (case v of PyStr _ \<Rightarrow> True | _ \<Rightarrow> False)"

definition scored_record :: "(pyval \<times> pyval) list \<Rightarrow> bool" where
  "scored_record kv \<longleftrightarrow>
     (case map_of kv (PyStr ''label'') of None \<Rightarrow> True | Some v \<Rightarrow> is_str v) \<and>
     (case map_of kv (PyStr ''score'') of None \<Rightarrow> True | Some v \<Rightarrow> is_number v)"

definition score_ok :: "(pyval \<times> pyval) list \<Rightarrow> bool" where
  "score_ok kv = (case map_of kv (PyStr ''score'') of None \<Rightarrow> True | Some v \<Rightarrow> is_number v)"

definition pair_shape :: "pyval list \<Rightarrow> bool" where
  "pair_shape xs \<longleftrightarrow>
     length xs < 2 \<or> (case xs ! 1 of PyDict kv \<Rightarrow> score_ok kv | _ \<Rightarrow> True)"

definition item_shape :: "pyval \<Rightarrow> bool" where
  "item_shape item =
     (case item of
        PyDict kv \<Rightarrow> scored_record kv
      | PyList xs \<Rightarrow> pair_shape xs
      | PyTuple xs \<Rightarrow> pair_shape xs
      | _ \<Rightarrow> True)"

definition entry_shape :: "pyval \<times> pyval \<Rightarrow> bool" where
  "entry_shape p = (case snd p of PyDict kv \<Rightarrow> score_ok kv | _ \<Rightarrow> True)"

definition emotion_shape :: "pyval \<Rightarrow> bool" where
  "emotion_shape v =
     (case v of
        PyList items \<Rightarrow> list_all item_shape items
      | PyDict kv \<Rightarrow>
          if map_of kv (PyStr ''label'') \<noteq> None then scored_record kv
          else list_all entry_shape kv
      | _ \<Rightarrow> True)"

definition sentiment_shape :: "pyval \<Rightarrow> bool" where
  "sentiment_shape raw =
     (case raw of
        PyList (x # xs) \<Rightarrow> (case x of PyDict kv \<Rightarrow> scored_record kv | _ \<Rightarrow> False)
      | PyDict kv \<Rightarrow> scored_record kv
      | _ \<Rightarrow> True)"

section \<open>Interpretation thresholds\<close>

text \<open>
  Claim C4. \<^const>\<open>interpret_overall_eq\<close> returns "Low EQ" exactly for scores below 40,
  "Average EQ" exactly for scores from 40 to 70 inclusive and "High EQ" exactly for scores
  above 70; 39.99 is low, 40 and 70 are average, 70.01 is high.
\<close>

theorem interpret_overall_eq_thresholds:
  "(interpret_overall_eq s = ''Low EQ'' \<longleftrightarrow> s < 40) \<and>
   (interpret_overall_eq s = ''Average EQ'' \<longleftrightarrow> 40 \<le> s \<and> s \<le> 70) \<and>
   (interpret_overall_eq s = ''High EQ'' \<longleftrightarrow> 70 < s) \<and>
   interpret_overall_eq 39.99 = ''Low EQ'' \<and>
   interpret_overall_eq 40.0 = ''Average EQ'' \<and>
   interpret_overall_eq 70.0 = ''Average EQ'' \<and>
   interpret_overall_eq 70.01 = ''High EQ''"
  by (simp add: interpret_overall_eq_def)

section \<open>The scorer\<close>

text \<open>
  The clamp \<^verbatim>\<open>max(0, min(100, x))\<close> is folded into \<^const>\<open>clamp_score\<close> first, so that the
  proofs below never split the six nested minima and maxima.
\<close>

lemma dict_get_Nil: "dict_get [] l d = d"
  by (simp add: dict_get_def)

lemma normalize_emotions_Nil: "normalize_emotions [] = []"
  by (simp add: normalize_emotions_def dict_of_items_def)

lemma clamp_fold: "max 0 (min 100 x) = clamp_score x"
  by (simp add: clamp_score_def)

lemma clamp_score_bounds: "0 \<le> clamp_score x" "clamp_score x \<le> 100"
  by (simp_all add: clamp_score_def)

lemma clamp_score_id: "0 \<le> x \<Longrightarrow> x \<le> 100 \<Longrightarrow> clamp_score x = x"
  by (simp add: clamp_score_def)

lemma calculate_eq_scores_clamped:
  "calculate_eq_scores analyses d =
     (let st = aggregate analyses;
          s = sentiment_ratios st;
          e = (\<lambda>l. dict_get (normalize_emotions (emotion_totals st)) l 0);
          scores = \<lparr>self_awareness = clamp_score (50 + 50 * (e ''joy'' + e ''love'' - e ''sadness'' - e ''anger'')),
             emotional_resilience = clamp_score (50 + 50 * (fst s - fst (snd s) - e ''fear'' * 0.5) + age_factor d * 5),
             conflict_resolution = clamp_score (50 + 50 * (fst s - e ''anger'' - e ''disgust'')),
             cultural_awareness = clamp_score (50 + 50 * (snd (snd s) + e ''love'' - e ''disgust'')),
             empathy = clamp_score (50 + 50 * (e ''love'' + e ''sadness'' * 0.7 - e ''disgust'')),
             stress_management = clamp_score (50 + 50 * (fst s - e ''fear'' - e ''anger'') + age_factor d * 3)\<rparr>
      in (scores, values_mean scores))"
  unfolding calculate_eq_scores_def Let_def clamp_fold by (rule refl)

lemma snd_calculate: "snd (calculate_eq_scores analyses d) = values_mean (fst (calculate_eq_scores analyses d))"
  unfolding calculate_eq_scores_def Let_def by (simp only: fst_conv snd_conv)

lemma values_mean_bounds:
  assumes "0 \<le> self_awareness cs" "self_awareness cs \<le> 100"
    "0 \<le> emotional_resilience cs" "emotional_resilience cs \<le> 100"
    "0 \<le> conflict_resolution cs" "conflict_resolution cs \<le> 100"
    "0 \<le> cultural_awareness cs" "cultural_awareness cs \<le> 100"
    "0 \<le> empathy cs" "empathy cs \<le> 100"
    "0 \<le> stress_management cs" "stress_management cs \<le> 100"
  shows "0 \<le> values_mean cs \<and> values_mean cs \<le> 100"
  using assms unfolding values_mean_def by simp

text \<open>
  Claim C1. For every list of feature records and every demographics record,
  \<^const>\<open>calculate_eq_scores\<close> returns six category scores in [0,100] and an overall score
  in [0,100]. The clamp establishes this for all inputs; the ranges that the claim assumes
  for the ratios and the age are not needed.
\<close>

theorem scores_in_range:
  "0 \<le> self_awareness (fst (calculate_eq_scores analyses d)) \<and>
   self_awareness (fst (calculate_eq_scores analyses d)) \<le> 100 \<and>
   0 \<le> emotional_resilience (fst (calculate_eq_scores analyses d)) \<and>
   emotional_resilience (fst (calculate_eq_scores analyses d)) \<le> 100 \<and>
   0 \<le> conflict_resolution (fst (calculate_eq_scores analyses d)) \<and>
   conflict_resolution (fst (calculate_eq_scores analyses d)) \<le> 100 \<and>
   0 \<le> cultural_awareness (fst (calculate_eq_scores analyses d)) \<and>
   cultural_awareness (fst (calculate_eq_scores analyses d)) \<le> 100 \<and>
   0 \<le> empathy (fst (calculate_eq_scores analyses d)) \<and>
   empathy (fst (calculate_eq_scores analyses d)) \<le> 100 \<and>
   0 \<le> stress_management (fst (calculate_eq_scores analyses d)) \<and>
   stress_management (fst (calculate_eq_scores analyses d)) \<le> 100 \<and>
   0 \<le> snd (calculate_eq_scores analyses d) \<and>
   snd (calculate_eq_scores analyses d) \<le> 100"
proof -
  let ?cs = "fst (calculate_eq_scores analyses d)"
  have f: "0 \<le> self_awareness ?cs" "self_awareness ?cs \<le> 100"
    "0 \<le> emotional_resilience ?cs" "emotional_resilience ?cs \<le> 100"
    "0 \<le> conflict_resolution ?cs" "conflict_resolution ?cs \<le> 100"
    "0 \<le> cultural_awareness ?cs" "cultural_awareness ?cs \<le> 100"
    "0 \<le> empathy ?cs" "empathy ?cs \<le> 100"
    "0 \<le> stress_management ?cs" "stress_management ?cs \<le> 100"
    unfolding calculate_eq_scores_clamped Let_def
    by (simp_all only: fst_conv category_scores.select_convs clamp_score_bounds)
  from values_mean_bounds[OF f] f show ?thesis
    by (simp only: snd_calculate simp_thms)
qed

text \<open>
  Claim C2. \<^const>\<open>calculate_eq_scores\<close> computes each category as 50 plus 50 times its
  linear combination of the ratios, with the age factor \<open>min 1 (age / 60)\<close>, adds five times
  the age factor to emotional resilience and three times to stress management before it
  clamps, and returns the unweighted mean of the six clamped scores. The ratio called
  neutral in the formula of cultural awareness is the neutral sentiment ratio.
\<close>

theorem scorer_formulas:
  "calculate_eq_scores analyses d =
     (let st = aggregate analyses;
          cs = spec_category_scores (sentiment_ratios st)
                 (\<lambda>l. dict_get (normalize_emotions (emotion_totals st)) l 0)
                 (spec_age_factor (case age d of None \<Rightarrow> 30 | Some a \<Rightarrow> a))
      in (cs, spec_overall cs))"
  unfolding calculate_eq_scores_clamped Let_def spec_category_scores_def spec_overall_def
      spec_age_factor_def age_factor_def get_age_def values_mean_def
  by (simp add: case_prod_beta)

lemma age_factor_default: "age d = None \<Longrightarrow> age_factor d = 1 / 2"
  by (simp add: age_factor_def get_age_def)

text \<open>
  Claim C10. When the demographics carry no age, the age is 30, the age factor is 0.5 and
  the adjustments are 2.5 on emotional resilience and 1.5 on stress management.
\<close>

theorem age_defaults_to_30:
  assumes "age d = None"
  shows "get_age d = 30 \<and> age_factor d = 0.5 \<and>
    age_factor d * 5 = 2.5 \<and> age_factor d * 3 = 1.5 \<and>
    emotional_resilience (fst (calculate_eq_scores analyses d)) =
      clamp_score (50 + 50 * (fst (sentiment_ratios (aggregate analyses))
         - fst (snd (sentiment_ratios (aggregate analyses)))
         - dict_get (normalize_emotions (emotion_totals (aggregate analyses))) ''fear'' 0 * 0.5) + 2.5) \<and>
    stress_management (fst (calculate_eq_scores analyses d)) =
      clamp_score (50 + 50 * (fst (sentiment_ratios (aggregate analyses))
         - dict_get (normalize_emotions (emotion_totals (aggregate analyses))) ''fear'' 0
         - dict_get (normalize_emotions (emotion_totals (aggregate analyses))) ''anger'' 0) + 1.5)"
  unfolding calculate_eq_scores_clamped Let_def
  using assms by (simp add: age_factor_default get_age_def)

theorem age_defaults_to_30_witness:
  "age \<lparr>age = None, gender = None, profession = None\<rparr> = None \<and>
   age_factor \<lparr>age = None, gender = None, profession = None\<rparr> = 0.5 \<and>
   emotional_resilience (fst (calculate_eq_scores [] \<lparr>age = None, gender = None, profession = None\<rparr>)) = 52.5 \<and>
   stress_management (fst (calculate_eq_scores [] \<lparr>age = None, gender = None, profession = None\<rparr>)) = 68"
  using age_defaults_to_30 [of "\<lparr>age = None, gender = None, profession = None\<rparr>" "[]"]
  by (simp add: aggregate_def agg_init_def sentiment_ratios_def normalize_emotions_Nil dict_get_def
      clamp_score_def)

section \<open>The aggregation loop\<close>

lemma foldl_aggregate_step_count:
  "sentiment_count (foldl aggregate_step st as) = sentiment_count st + length as"
  by (induction as arbitrary: st) (simp_all add: aggregate_step_def Let_def)

lemma foldl_aggregate_step_positive:
  "total_sentiment_positive (foldl aggregate_step st as) =
     total_sentiment_positive st +
     sum_list (map sentiment_score (filter (\<lambda>a. sentiment_label a = ''POSITIVE'') as))"
  by (induction as arbitrary: st) (simp_all add: aggregate_step_def Let_def)

lemma foldl_aggregate_step_negative:
  "total_sentiment_negative (foldl aggregate_step st as) =
     total_sentiment_negative st +
     sum_list (map sentiment_score (filter (\<lambda>a. sentiment_label a = ''NEGATIVE'') as))"
  by (induction as arbitrary: st) (simp_all add: aggregate_step_def Let_def)

lemma foldl_aggregate_step_neutral:
  "total_sentiment_neutral (foldl aggregate_step st as) =
     total_sentiment_neutral st +
     sum_list (map sentiment_score
       (filter (\<lambda>a. sentiment_label a \<noteq> ''POSITIVE'' \<and> sentiment_label a \<noteq> ''NEGATIVE'') as))"
  by (induction as arbitrary: st) (simp_all add: aggregate_step_def Let_def)

lemma foldl_aggregate_step_emotions:
  "emotion_totals (foldl aggregate_step st as) =
     foldl add_emotion (emotion_totals st) (concat (map emotion_scores as))"
  by (induction as arbitrary: st) (simp_all add: aggregate_step_def Let_def)

lemma aggregate_fields:
  "sentiment_count (aggregate as) = length as"
  "total_sentiment_positive (aggregate as) =
     sum_list (map sentiment_score (filter (\<lambda>a. sentiment_label a = ''POSITIVE'') as))"
  "total_sentiment_negative (aggregate as) =
     sum_list (map sentiment_score (filter (\<lambda>a. sentiment_label a = ''NEGATIVE'') as))"
  "total_sentiment_neutral (aggregate as) =
     sum_list (map sentiment_score
       (filter (\<lambda>a. sentiment_label a \<noteq> ''POSITIVE'' \<and> sentiment_label a \<noteq> ''NEGATIVE'') as))"
  "emotion_totals (aggregate as) = foldl add_emotion [] (concat (map emotion_scores as))"
  by (simp_all add: aggregate_def agg_init_def foldl_aggregate_step_count
      foldl_aggregate_step_positive foldl_aggregate_step_negative foldl_aggregate_step_neutral
      foldl_aggregate_step_emotions)

lemma neutral_filter:
  assumes "\<forall>a\<in>set as. sentiment_label a \<in> {''POSITIVE'', ''NEGATIVE'', ''NEUTRAL''}"
  shows "filter (\<lambda>a. sentiment_label a \<noteq> ''POSITIVE'' \<and> sentiment_label a \<noteq> ''NEGATIVE'') as =
         filter (\<lambda>a. sentiment_label a = ''NEUTRAL'') as"
  using assms by (intro filter_cong) auto

subsection \<open>Emotion totals\<close>

lemma map_of_add_emotion:
  "map_of (add_emotion T p) = (map_of T)(fst p \<mapsto> dict_get T (fst p) 0 + snd p)"
  by (auto simp: add_emotion_def Let_def dict_get_def update_conv' fun_eq_iff split: option.splits)

lemma keys_add_emotion: "fst ` set (add_emotion T p) = insert (fst p) (fst ` set T)"
  by (auto simp: add_emotion_def Let_def dom_update)

lemma distinct_add_emotion: "distinct (map fst T) \<Longrightarrow> distinct (map fst (add_emotion T p))"
  by (simp add: add_emotion_def Let_def distinct_update)

lemma dict_get_add_emotion:
  "dict_get (add_emotion T p) l 0 = dict_get T l 0 + (if fst p = l then snd p else 0)"
  by (simp add: dict_get_def map_of_add_emotion)

lemma foldl_add_emotion_distinct:
  "distinct (map fst T) \<Longrightarrow> distinct (map fst (foldl add_emotion T items))"
  by (induction items arbitrary: T) (simp_all add: distinct_add_emotion)

lemma foldl_add_emotion_keys:
  "fst ` set (foldl add_emotion T items) = fst ` set T \<union> fst ` set items"
  by (induction items arbitrary: T) (auto simp: keys_add_emotion)

lemma foldl_add_emotion_get:
  "dict_get (foldl add_emotion T items) l 0 =
     dict_get T l 0 + sum_list (map snd (filter (\<lambda>p. fst p = l) items))"
  by (induction items arbitrary: T) (simp_all add: dict_get_add_emotion)

lemma dict_get_as_sum:
  "distinct (map fst xs) \<Longrightarrow> sum_list (map snd (filter (\<lambda>p. fst p = l) xs)) = dict_get xs l 0"
proof (induction xs)
  case Nil
  then show ?case by (simp add: dict_get_def)
next
  case (Cons x xs)
  show ?case
  proof (cases "fst x = l")
    case True
    with Cons.prems have "l \<notin> fst ` set xs" by auto
    then have "filter (\<lambda>p. fst p = l) xs = []" by (auto simp: filter_empty_conv)
    with True show ?thesis by (cases x) (simp add: dict_get_def)
  next
    case False
    with Cons show ?thesis by (cases x) (simp add: dict_get_def)
  qed
qed

lemma concat_total:
  assumes "\<forall>a\<in>set as. distinct (map fst (emotion_scores a))"
  shows "sum_list (map snd (filter (\<lambda>p. fst p = l) (concat (map emotion_scores as)))) =
         emotion_total as l"
  using assms by (induction as) (simp_all add: emotion_total_def dict_get_as_sum)

lemma totals_distinct: "distinct (map fst (emotion_totals (aggregate as)))"
  by (simp add: aggregate_fields foldl_add_emotion_distinct)

lemma totals_keys: "set (map fst (emotion_totals (aggregate as))) = set (observed_labels as)"
  by (auto simp: aggregate_fields foldl_add_emotion_keys observed_labels_def)

lemma totals_get:
  assumes "\<forall>a\<in>set as. distinct (map fst (emotion_scores a))"
  shows "dict_get (emotion_totals (aggregate as)) l 0 = emotion_total as l"
  using concat_total[OF assms, of l]
  by (simp add: aggregate_fields foldl_add_emotion_get dict_get_Nil)

lemma distinct_snd_lookup:
  assumes "distinct (map fst T)" "p \<in> set T"
  shows "snd p = dict_get T (fst p) 0"
proof -
  from assms have "map_of T (fst p) = Some (snd p)" by (cases p) simp
  then show ?thesis by (simp add: dict_get_def)
qed

lemma totals_sum:
  assumes "\<forall>a\<in>set as. distinct (map fst (emotion_scores a))"
  shows "sum_list (map snd (emotion_totals (aggregate as))) = grand_total as"
proof -
  let ?T = "emotion_totals (aggregate as)"
  have "\<And>p. p \<in> set ?T \<Longrightarrow> snd p = emotion_total as (fst p)"
    using distinct_snd_lookup[OF totals_distinct] totals_get[OF assms] by simp
  then have "map snd ?T = map (\<lambda>p. emotion_total as (fst p)) ?T"
    by (intro map_cong refl)
  then have "map snd ?T = map (emotion_total as) (map fst ?T)"
    by (simp only: map_map comp_def)
  then have "sum_list (map snd ?T) = sum_list (map (emotion_total as) (map fst ?T))"
    by (rule arg_cong)
  also have "\<dots> = sum (emotion_total as) (set (map fst ?T))"
    using totals_distinct by (rule sum_list_distinct_conv_sum_set)
  also have "\<dots> = sum (emotion_total as) (set (observed_labels as))"
    by (simp only: totals_keys)
  also have "\<dots> = sum_list (map (emotion_total as) (observed_labels as))"
    by (rule sum_list_distinct_conv_sum_set[symmetric]) (simp add: observed_labels_def)
  finally show ?thesis by (simp add: grand_total_def)
qed

lemma totals_length: "length (emotion_totals (aggregate as)) = length (observed_labels as)"
proof -
  have "length (map fst (emotion_totals (aggregate as))) = card (set (map fst (emotion_totals (aggregate as))))"
    using totals_distinct by (rule distinct_card[symmetric])
  also have "\<dots> = card (set (observed_labels as))" by (simp only: totals_keys)
  also have "\<dots> = length (observed_labels as)"
    by (rule distinct_card) (simp add: observed_labels_def)
  finally show ?thesis by simp
qed

subsection \<open>Normalisation\<close>

text \<open>
  Filling a dict from items whose keys are pairwise different appends them one by one, so
  both branches of the normalisation keep the order and the keys of the totals.
\<close>

lemma update_fresh: "k \<notin> fst ` set al \<Longrightarrow> AList.update k v al = al @ [(k, v)]"
  by (induction al) auto

lemma foldl_update_distinct:
  "distinct (map fst (acc @ xs)) \<Longrightarrow>
   foldl (\<lambda>d (k, v). AList.update k v d) acc xs = acc @ xs"
proof (induction xs arbitrary: acc)
  case Nil
  then show ?case by simp
next
  case (Cons x xs)
  obtain k v where x: "x = (k, v)" by (cases x)
  from Cons.prems x have "k \<notin> fst ` set acc" by auto
  then have u: "AList.update k v acc = acc @ [(k, v)]" by (rule update_fresh)
  from Cons.prems x have "distinct (map fst ((acc @ [(k, v)]) @ xs))" by simp
  from Cons.IH[OF this] u x show ?case by simp
qed

lemma dict_of_items_distinct: "distinct (map fst xs) \<Longrightarrow> dict_of_items xs = xs"
  using foldl_update_distinct[of "[]" xs] by (simp add: dict_of_items_def)

lemma map_fst_scaled: "map fst (map (\<lambda>(l, t). (l, f t)) T) = map fst T"
  by (induction T) auto

lemma map_of_scaled: "map_of (map (\<lambda>(l, t). (l, f t)) T) k = map_option f (map_of T k)"
  by (induction T) auto

lemma map_of_constant:
  "map_of (map (\<lambda>l. (l, c)) ks) k = (if k \<in> set ks then Some c else None)"
  by (induction ks) auto

lemma emotion_total_nonneg:
  assumes "\<forall>a\<in>set as. \<forall>p\<in>set (emotion_scores a). 0 \<le> snd p"
  shows "0 \<le> emotion_total as l"
proof -
  have "0 \<le> dict_get (emotion_scores a) l 0" if "a \<in> set as" for a
  proof (cases "map_of (emotion_scores a) l")
    case None
    then show ?thesis by (simp add: dict_get_def)
  next
    case (Some v)
    then have "(l, v) \<in> set (emotion_scores a)" by (rule map_of_SomeD)
    with assms that have "0 \<le> v" by fastforce
    with Some show ?thesis by (simp add: dict_get_def)
  qed
  then show ?thesis unfolding emotion_total_def by (intro sum_list_nonneg) auto
qed

lemma grand_total_nonneg:
  assumes "\<forall>a\<in>set as. \<forall>p\<in>set (emotion_scores a). 0 \<le> snd p"
  shows "0 \<le> grand_total as"
  unfolding grand_total_def using emotion_total_nonneg[OF assms] by (intro sum_list_nonneg) auto

lemma normalize_emotions_map_of:
  assumes d: "\<forall>a\<in>set as. distinct (map fst (emotion_scores a))"
  shows "map_of (normalize_emotions (emotion_totals (aggregate as))) l =
     (if l \<notin> set (observed_labels as) then None
      else if grand_total as > 0 then Some (emotion_total as l / grand_total as)
      else Some (1 / real (length (observed_labels as))))"
proof -
  let ?T = "emotion_totals (aggregate as)"
  have dT: "distinct (map fst ?T)" by (rule totals_distinct)
  have look: "map_of ?T l = (if l \<in> set (observed_labels as) then Some (emotion_total as l) else None)"
  proof (cases "map_of ?T l")
    case None
    then have "l \<notin> fst ` set ?T" by (simp add: map_of_eq_None_iff)
    with None totals_keys[of as] show ?thesis by simp
  next
    case (Some v)
    then have "(l, v) \<in> set ?T" by (rule map_of_SomeD)
    then have "l \<in> fst ` set ?T" by force
    moreover from Some totals_get[OF d, of l] have "v = emotion_total as l" by (simp add: dict_get_def)
    ultimately show ?thesis using Some totals_keys[of as] by simp
  qed
  show ?thesis
  proof (cases "grand_total as > 0")
    case True
    let ?R = "map (\<lambda>(emotion_label, total_score). (emotion_label, total_score / grand_total as)) ?T"
    have "map fst ?R = map fst ?T" by (rule map_fst_scaled)
    with dT have "dict_of_items ?R = ?R" by (intro dict_of_items_distinct) (simp only:)
    with True have R: "normalize_emotions ?T = ?R"
      by (simp add: normalize_emotions_def totals_sum[OF d])
    have "map_of ?R l = map_option (\<lambda>t. t / grand_total as) (map_of ?T l)"
      by (rule map_of_scaled)
    with R look True show ?thesis by simp
  next
    case False
    let ?R = "map (\<lambda>label. (label, if ?T \<noteq> [] then 1 / real (length ?T) else 0)) (map fst ?T)"
    have "map fst ?R = map fst ?T" by (simp add: comp_def)
    with dT have "dict_of_items ?R = ?R" by (intro dict_of_items_distinct) (simp only:)
    with False have R: "normalize_emotions ?T = ?R"
      by (simp add: normalize_emotions_def totals_sum[OF d])
    have "map_of ?R l = (if l \<in> set (map fst ?T) then Some (if ?T \<noteq> [] then 1 / real (length ?T) else 0) else None)"
      by (rule map_of_constant)
    moreover have "l \<in> set (map fst ?T) \<Longrightarrow> ?T \<noteq> []" by auto
    ultimately show ?thesis using R False totals_keys[of as] totals_length[of as]
      by (auto)
  qed
qed

text \<open>
  Claim C3. For every list of N feature records the sentiment ratio of a label is the sum of
  the sentiment scores of the records bearing that label, divided by N, and 0.33 for each
  label when N = 0. The ratio of an observed emotion is its total divided by the grand sum of
  the totals; when the grand sum is 0 it is one over the number of observed emotions; an
  emotion that was not observed has no entry, and when no emotion was observed the mapping
  is empty and every lookup yields 0.
\<close>

theorem aggregation_ratios:
  assumes "\<forall>a\<in>set analyses. feature_record a"
  shows "sentiment_ratios (aggregate analyses) =
      (if length analyses = 0 then (0.33, 0.33, 0.33)
       else (label_sum ''POSITIVE'' analyses / real (length analyses),
             label_sum ''NEGATIVE'' analyses / real (length analyses),
             label_sum ''NEUTRAL'' analyses / real (length analyses))) \<and>
    map_of (normalize_emotions (emotion_totals (aggregate analyses))) l =
      (if l \<notin> set (observed_labels analyses) then None
       else if grand_total analyses = 0
         then Some (1 / real (length (observed_labels analyses)))
       else Some (emotion_total analyses l / grand_total analyses)) \<and>
    (observed_labels analyses = [] \<longrightarrow>
       normalize_emotions (emotion_totals (aggregate analyses)) = [] \<and>
       dict_get (normalize_emotions (emotion_totals (aggregate analyses))) l 0 = 0)"
proof -
  from assms have lab: "\<forall>a\<in>set analyses. sentiment_label a \<in> {''POSITIVE'', ''NEGATIVE'', ''NEUTRAL''}"
    and dis: "\<forall>a\<in>set analyses. distinct (map fst (emotion_scores a))"
    and pos: "\<forall>a\<in>set analyses. \<forall>p\<in>set (emotion_scores a). 0 \<le> snd p"
    by (simp_all add: feature_record_def)
  have s: "sentiment_ratios (aggregate analyses) =
      (if length analyses = 0 then (0.33, 0.33, 0.33)
       else (label_sum ''POSITIVE'' analyses / real (length analyses),
             label_sum ''NEGATIVE'' analyses / real (length analyses),
             label_sum ''NEUTRAL'' analyses / real (length analyses)))"
    by (simp add: sentiment_ratios_def aggregate_fields neutral_filter[OF lab] label_sum_def)
  have g: "grand_total analyses > 0 \<longleftrightarrow> grand_total analyses \<noteq> 0"
    using grand_total_nonneg[OF pos] by auto
  have m: "map_of (normalize_emotions (emotion_totals (aggregate analyses))) l =
      (if l \<notin> set (observed_labels analyses) then None
       else if grand_total analyses = 0
         then Some (1 / real (length (observed_labels analyses)))
       else Some (emotion_total analyses l / grand_total analyses))"
    by (simp add: normalize_emotions_map_of[OF dis] g)
  have e: "normalize_emotions (emotion_totals (aggregate analyses)) = []"
    if "observed_labels analyses = []"
  proof -
    from that totals_length[of analyses] have "emotion_totals (aggregate analyses) = []" by simp
    then show ?thesis by (simp add: normalize_emotions_Nil)
  qed
  from s m e show ?thesis by (simp add: dict_get_Nil)
qed

theorem aggregation_ratios_witness:
  "feature_record \<lparr>sentiment_label = ''POSITIVE'', sentiment_score = 0.9,
      emotion_scores = [(''joy'', 1.0), (''fear'', 1.0)],
      primary_emotion = Some ''joy'', primary_emotion_score = 1.0\<rparr> \<and>
   feature_record \<lparr>sentiment_label = ''NEUTRAL'', sentiment_score = 0.5,
      emotion_scores = [(''joy'', 1.0)],
      primary_emotion = Some ''joy'', primary_emotion_score = 1.0\<rparr> \<and>
   feature_record \<lparr>sentiment_label = ''NEGATIVE'', sentiment_score = 0.6,
      emotion_scores = [(''joy'', 1.0)],
      primary_emotion = Some ''joy'', primary_emotion_score = 1.0\<rparr> \<and>
   sentiment_ratios (aggregate
     [\<lparr>sentiment_label = ''POSITIVE'', sentiment_score = 0.9,
        emotion_scores = [(''joy'', 1.0), (''fear'', 1.0)],
        primary_emotion = Some ''joy'', primary_emotion_score = 1.0\<rparr>,
      \<lparr>sentiment_label = ''NEUTRAL'', sentiment_score = 0.5,
        emotion_scores = [(''joy'', 1.0)],
        primary_emotion = Some ''joy'', primary_emotion_score = 1.0\<rparr>,
      \<lparr>sentiment_label = ''NEGATIVE'', sentiment_score = 0.6,
        emotion_scores = [(''joy'', 1.0)],
        primary_emotion = Some ''joy'', primary_emotion_score = 1.0\<rparr>]) = (0.3, 0.2, 0.5 / 3) \<and>
   map_of (normalize_emotions (emotion_totals (aggregate
     [\<lparr>sentiment_label = ''POSITIVE'', sentiment_score = 0.9,
        emotion_scores = [(''joy'', 1.0), (''fear'', 1.0)],
        primary_emotion = Some ''joy'', primary_emotion_score = 1.0\<rparr>,
      \<lparr>sentiment_label = ''NEUTRAL'', sentiment_score = 0.5,
        emotion_scores = [(''joy'', 1.0)],
        primary_emotion = Some ''joy'', primary_emotion_score = 1.0\<rparr>,
      \<lparr>sentiment_label = ''NEGATIVE'', sentiment_score = 0.6,
        emotion_scores = [(''joy'', 1.0)],
        primary_emotion = Some ''joy'', primary_emotion_score = 1.0\<rparr>]))) ''joy'' = Some 0.75"
  using aggregation_ratios [of
     "[\<lparr>sentiment_label = ''POSITIVE'', sentiment_score = 0.9,
        emotion_scores = [(''joy'', 1.0), (''fear'', 1.0)],
        primary_emotion = Some ''joy'', primary_emotion_score = 1.0\<rparr>,
      \<lparr>sentiment_label = ''NEUTRAL'', sentiment_score = 0.5,
        emotion_scores = [(''joy'', 1.0)],
        primary_emotion = Some ''joy'', primary_emotion_score = 1.0\<rparr>,
      \<lparr>sentiment_label = ''NEGATIVE'', sentiment_score = 0.6,
        emotion_scores = [(''joy'', 1.0)],
        primary_emotion = Some ''joy'', primary_emotion_score = 1.0\<rparr>]" "''joy''"]
  by (simp add: feature_record_def label_sum_def observed_labels_def grand_total_def
      emotion_total_def dict_get_def)

section \<open>Neutral responses without emotions\<close>

lemma calculate_eq_scores_Nil:
  "snd (calculate_eq_scores [] d) =
     (50 + clamp_score (50 + age_factor d * 5) + 66.5 + 66.5 + 50 +
      clamp_score (66.5 + age_factor d * 3)) / 6"
proof -
  have c: "clamp_score 50 = 50" "clamp_score (133 / 2) = 133 / 2"
    by (simp_all add: clamp_score_def)
  show ?thesis
    unfolding calculate_eq_scores_clamped Let_def
    by (simp add: aggregate_def agg_init_def sentiment_ratios_def normalize_emotions_Nil
        dict_get_Nil values_mean_def c)
qed

text \<open>
  Claim C7, amended to what the code computes. When every record has an empty emotion
  mapping and the label NEUTRAL, the emotion ratios are empty and every emotion lookup is 0. For a
  non-empty list self awareness, conflict resolution and empathy are 50, emotional
  resilience and stress management are 50 plus their age adjustment, clamped, and cultural
  awareness is 50 plus 50 times the neutral sentiment ratio (the mean sentiment score),
  clamped; the overall score is the mean of these six. For the empty list the three
  sentiment ratios are 0.33 and the overall score is the mean of 50, 50 plus the first
  adjustment, 66.5, 66.5, 50 and 66.5 plus the second adjustment.
\<close>

theorem neutral_without_emotions:
  assumes "\<forall>a\<in>set analyses. emotion_scores a = [] \<and> sentiment_label a = ''NEUTRAL''"
  shows "normalize_emotions (emotion_totals (aggregate analyses)) = [] \<and>
    dict_get (normalize_emotions (emotion_totals (aggregate analyses))) l 0 = 0 \<and>
    (analyses \<noteq> [] \<longrightarrow>
       fst (calculate_eq_scores analyses d) =
         \<lparr>self_awareness = 50,
          emotional_resilience = clamp_score (50 + age_factor d * 5),
          conflict_resolution = 50,
          cultural_awareness =
            clamp_score (50 + 50 * (sum_list (map sentiment_score analyses) / real (length analyses))),
          empathy = 50,
          stress_management = clamp_score (50 + age_factor d * 3)\<rparr> \<and>
       snd (calculate_eq_scores analyses d) =
         (50 + clamp_score (50 + age_factor d * 5) + 50 +
          clamp_score (50 + 50 * (sum_list (map sentiment_score analyses) / real (length analyses))) +
          50 + clamp_score (50 + age_factor d * 3)) / 6) \<and>
    (analyses = [] \<longrightarrow>
       snd (calculate_eq_scores analyses d) =
         (50 + clamp_score (50 + age_factor d * 5) + 66.5 + 66.5 + 50 +
          clamp_score (66.5 + age_factor d * 3)) / 6)"
proof -
  from assms have "concat (map emotion_scores analyses) = []" by simp
  then have t: "emotion_totals (aggregate analyses) = []" by (simp only: aggregate_fields foldl.simps)
  have p: "filter (\<lambda>a. sentiment_label a = ''POSITIVE'') analyses = []"
    and n: "filter (\<lambda>a. sentiment_label a = ''NEGATIVE'') analyses = []"
    using assms by (auto simp: filter_empty_conv)
  have u: "filter (\<lambda>a. sentiment_label a \<noteq> ''POSITIVE'' \<and> sentiment_label a \<noteq> ''NEGATIVE'') analyses = analyses"
    using assms by (auto simp: filter_id_conv)
  have s: "sentiment_ratios (aggregate analyses) =
      (if analyses = [] then (0.33, 0.33, 0.33)
       else (0, 0, sum_list (map sentiment_score analyses) / real (length analyses)))"
    by (simp add: sentiment_ratios_def aggregate_fields p n u)
  have c50: "clamp_score 50 = 50"
    by (simp add: clamp_score_def)
  have ne: "fst (calculate_eq_scores analyses d) =
         \<lparr>self_awareness = 50,
          emotional_resilience = clamp_score (50 + age_factor d * 5),
          conflict_resolution = 50,
          cultural_awareness =
            clamp_score (50 + 50 * (sum_list (map sentiment_score analyses) / real (length analyses))),
          empathy = 50,
          stress_management = clamp_score (50 + age_factor d * 3)\<rparr> \<and>
       snd (calculate_eq_scores analyses d) =
         (50 + clamp_score (50 + age_factor d * 5) + 50 +
          clamp_score (50 + 50 * (sum_list (map sentiment_score analyses) / real (length analyses))) +
          50 + clamp_score (50 + age_factor d * 3)) / 6" if "analyses \<noteq> []"
    unfolding calculate_eq_scores_clamped Let_def
    using that by (simp add: t s normalize_emotions_Nil dict_get_Nil values_mean_def c50)
  have em: "snd (calculate_eq_scores analyses d) =
         (50 + clamp_score (50 + age_factor d * 5) + 66.5 + 66.5 + 50 +
          clamp_score (66.5 + age_factor d * 3)) / 6" if "analyses = []"
    unfolding that by (rule calculate_eq_scores_Nil)
  from t ne em show ?thesis by (simp add: normalize_emotions_Nil dict_get_Nil)
qed

theorem neutral_without_emotions_witness:
  "emotion_scores neutral_half = [] \<and> sentiment_label neutral_half = ''NEUTRAL'' \<and>
   snd (calculate_eq_scores [neutral_half] aged_30) = 329 / 6"
  using neutral_without_emotions [of "[neutral_half]" "''joy''" aged_30]
  by (simp add: neutral_half_def aged_30_def age_factor_def get_age_def clamp_score_def)

text \<open>
  The claim as stated fails: one neutral response with the default score 0.5 and a user
  aged 30 give the overall score 329/6, not 152/3; with the score 0.9 the overall score is
  349/6, so the age alone does not determine it.
\<close>

theorem neutral_overall_counterexample:
  "emotion_scores neutral_half = [] \<and> sentiment_label neutral_half = ''NEUTRAL'' \<and>
   emotion_scores neutral_high = [] \<and> sentiment_label neutral_high = ''NEUTRAL'' \<and>
   snd (calculate_eq_scores [neutral_half] aged_30) = 329 / 6 \<and>
   snd (calculate_eq_scores [neutral_high] aged_30) = 349 / 6 \<and>
   claimed_neutral_overall aged_30 = 152 / 3 \<and>
   snd (calculate_eq_scores [neutral_half] aged_30) \<noteq> claimed_neutral_overall aged_30"
  unfolding calculate_eq_scores_clamped Let_def
  by (simp add: neutral_half_def neutral_high_def aged_30_def age_factor_def get_age_def
      clamp_score_def claimed_neutral_overall_def aggregate_def agg_init_def aggregate_step_def
      sentiment_ratios_def normalize_emotions_Nil dict_get_Nil values_mean_def)

section \<open>Response validation\<close>

text \<open>
  The words of \<^const>\<open>split\<close> are non-empty, hold no whitespace, and together are the
  characters of the string that are no whitespace. The index and the counts of the messages
  are printed in decimal.
\<close>

lemma split_from_words:
  "\<forall>c\<in>set cur. \<not> is_space c \<Longrightarrow> w \<in> set (split_from cur s) \<Longrightarrow>
   w \<noteq> [] \<and> (\<forall>c\<in>set w. \<not> is_space c)"
proof (induction s arbitrary: cur)
  case Nil
  then show ?case by (auto split: if_splits)
next
  case (Cons a s)
  show ?case
  proof (cases "is_space a")
    case True
    with Cons.prems have "w = cur \<and> cur \<noteq> [] \<or> w \<in> set (split_from [] s)"
      by (auto split: if_splits)
    then show ?thesis
    proof
      assume "w = cur \<and> cur \<noteq> []"
      with Cons.prems(1) show ?thesis by simp
    next
      assume "w \<in> set (split_from [] s)"
      with Cons.IH[of "[]"] show ?thesis by simp
    qed
  next
    case False
    with Cons.prems have "w \<in> set (split_from (cur @ [a]) s)" by simp
    moreover from False Cons.prems(1) have "\<forall>c\<in>set (cur @ [a]). \<not> is_space c" by simp
    ultimately show ?thesis using Cons.IH[of "cur @ [a]"] by blast
  qed
qed

lemma concat_split_from:
  "concat (split_from cur s) = cur @ filter (\<lambda>c. \<not> is_space c) s"
  by (induction s arbitrary: cur) simp_all

lemma split_words:
  "w \<in> set (split s) \<Longrightarrow> w \<noteq> [] \<and> (\<forall>c\<in>set w. \<not> is_space c)"
  "concat (split s) = filter (\<lambda>c. \<not> is_space c) s"
  using split_from_words[of "[]" w s] by (simp_all add: split_def concat_split_from)

lemma digit_value_nth: "k < 10 \<Longrightarrow> digit_value (''0123456789'' ! k) = k"
proof -
  assume "k < 10"
  then have "k = 0 \<or> k = 1 \<or> k = 2 \<or> k = 3 \<or> k = 4 \<or> k = 5 \<or> k = 6 \<or> k = 7 \<or> k = 8 \<or> k = 9"
    by arith
  then show ?thesis by (elim disjE) (simp_all add: digit_value_def)
qed

lemma decimal_value_snoc: "decimal_value (s @ [c]) = 10 * decimal_value s + digit_value c"
  by (simp add: decimal_value_def)

lemma decimal_value_nat_to_str: "decimal_value (nat_to_str n) = n"
proof (induction n rule: nat_to_str.induct)
  case (1 n)
  show ?case
  proof (cases "n < 10")
    case True
    then show ?thesis
      by (subst nat_to_str.simps) (simp add: decimal_value_def digit_value_nth)
  next
    case False
    with 1 have "decimal_value (nat_to_str (n div 10)) = n div 10" by simp
    with False show ?thesis
      by (subst nat_to_str.simps) (simp add: decimal_value_snoc digit_value_nth)
  qed
qed

text \<open>The test for an empty answer is the test for a blank response.\<close>

lemma dropWhile_all: "(\<forall>c\<in>set (dropWhile P r). P c) \<longleftrightarrow> (\<forall>c\<in>set r. P c)"
proof
  assume l: "\<forall>c\<in>set (dropWhile P r). P c"
  have "dropWhile P r = []"
  proof (rule ccontr)
    assume n: "dropWhile P r \<noteq> []"
    then have "\<not> P (hd (dropWhile P r))" by (rule hd_dropWhile)
    moreover from n have "hd (dropWhile P r) \<in> set (dropWhile P r)" by (rule hd_in_set)
    ultimately show False using l by blast
  qed
  then show "\<forall>c\<in>set r. P c" by simp
next
  assume "\<forall>c\<in>set r. P c"
  then show "\<forall>c\<in>set (dropWhile P r). P c" by (blast dest: set_dropWhileD)
qed

lemma strip_Nil_iff: "strip r = [] \<longleftrightarrow> is_blank r"
  by (simp add: strip_def is_blank_def dropWhile_all)

lemma blank_test: "(r = [] \<or> strip r = []) \<longleftrightarrow> is_blank r"
  using strip_Nil_iff[of r] by (auto simp: is_blank_def)

lemma validate_from_blank:
  "is_blank r \<Longrightarrow> validate_from m k (r # rest) = (False, Some (empty_message k))"
  using blank_test[of r] by simp

lemma validate_from_short:
  "\<not> is_blank r \<Longrightarrow> int (word_count r) < m \<Longrightarrow>
   validate_from m k (r # rest) = (False, Some (short_message k m (word_count r)))"
  using blank_test[of r] by (simp add: word_count_def Let_def)

lemma validate_from_ok:
  "\<not> fails_validation m r \<Longrightarrow> validate_from m k (r # rest) = validate_from m (k + 1) rest"
  using blank_test[of r] by (simp add: fails_validation_def word_count_def Let_def)

lemma validate_from_pass:
  "\<forall>r\<in>set pre. \<not> fails_validation m r \<Longrightarrow>
   validate_from m k (pre @ rest) = validate_from m (k + length pre) rest"
proof (induction pre arbitrary: k)
  case Nil
  then show ?case by simp
next
  case (Cons r pre)
  from Cons.prems have "\<not> fails_validation m r" by simp
  from validate_from_ok[OF this]
  have "validate_from m k ((r # pre) @ rest) = validate_from m (k + 1) (pre @ rest)"
    by simp
  also from Cons have "\<dots> = validate_from m (k + 1 + length pre) rest" by simp
  finally show ?case by simp
qed

lemma split_at_index:
  assumes "i < length rs" "\<forall>j<i. \<not> fails_validation m (rs ! j)"
  shows "validate_from m 0 rs = validate_from m i (rs ! i # drop (Suc i) rs)"
proof -
  have "\<forall>r\<in>set (take i rs). \<not> fails_validation m r"
    using assms by (auto simp: in_set_conv_nth)
  from validate_from_pass[OF this, of 0 "rs ! i # drop (Suc i) rs"] assms(1)
  show ?thesis by (simp add: id_take_nth_drop[symmetric])
qed

text \<open>
  Claim C5. \<^const>\<open>validate_responses\<close> walks the responses in order and stops at the first
  one that fails. If that response is blank, the result is failure with the message for an
  empty answer, naming its 1-based index; otherwise (it has too few words) the result is
  failure with the message naming its index, the required and the actual number of words.
  If no response fails, the result is success without a message. The messages print the
  index plus one in decimal, and the minimum set by the constructor is 10. Emptiness is
  tested before the word count within each response; the loop does not test all responses
  for emptiness first.
\<close>

theorem validate_responses_first_failure:
  "((\<forall>r\<in>set responses. \<not> fails_validation (min_words_per_response self) r) \<longrightarrow>
      validate_responses self responses = (True, None)) \<and>
   (i < length responses \<and>
    (\<forall>j<i. \<not> fails_validation (min_words_per_response self) (responses ! j)) \<and>
    is_blank (responses ! i) \<longrightarrow>
      validate_responses self responses = (False, Some (empty_message i))) \<and>
   (i < length responses \<and>
    (\<forall>j<i. \<not> fails_validation (min_words_per_response self) (responses ! j)) \<and>
    \<not> is_blank (responses ! i) \<and>
    int (word_count (responses ! i)) < min_words_per_response self \<longrightarrow>
      validate_responses self responses =
        (False, Some (short_message i (min_words_per_response self) (word_count (responses ! i))))) \<and>
   empty_message i =
     ''Answer '' @ nat_to_str (i + 1) @ '' cannot be empty. Please provide a thoughtful response.'' \<and>
   short_message i m n =
     ''Answer '' @ nat_to_str (i + 1) @ '' is too short. Please provide at least '' @
     int_to_str m @ '' words (currently '' @ nat_to_str n @
     '' words). Your response should be detailed and reflective.'' \<and>
   decimal_value (nat_to_str (i + 1)) = i + 1 \<and>
   min_words_per_response (init_model sp ep) = 10"
proof -
  let ?m = "min_words_per_response self"
  have a: "validate_responses self responses = (True, None)"
    if "\<forall>r\<in>set responses. \<not> fails_validation ?m r"
    using validate_from_pass[OF that, of 0 "[]"] by (simp add: validate_responses_def)
  have b: "validate_responses self responses = (False, Some (empty_message i))"
    if "i < length responses" "\<forall>j<i. \<not> fails_validation ?m (responses ! j)" "is_blank (responses ! i)"
    using split_at_index[OF that(1,2)] validate_from_blank[OF that(3)]
    by (simp add: validate_responses_def)
  have c: "validate_responses self responses =
        (False, Some (short_message i ?m (word_count (responses ! i))))"
    if "i < length responses" "\<forall>j<i. \<not> fails_validation ?m (responses ! j)"
      "\<not> is_blank (responses ! i)" "int (word_count (responses ! i)) < ?m"
    using split_at_index[OF that(1,2)] validate_from_short[OF that(3,4)]
    by (simp add: validate_responses_def)
  have d: "short_message i m n =
     ''Answer '' @ nat_to_str (i + 1) @ '' is too short. Please provide at least '' @
     int_to_str m @ '' words (currently '' @ nat_to_str n @
     '' words). Your response should be detailed and reflective.''"
    by (simp add: short_message_def)
  from a b c d show ?thesis
    by (simp add: init_model_def empty_message_def decimal_value_nat_to_str)
qed

theorem validate_responses_first_failure_witness:
  "is_blank [] \<and>
   validate_responses (init_model (\<lambda>t. Inr PyNone) (\<lambda>t. Inr PyNone))
     [[], ''ten word sentence one two three four five six seven''] =
     (False, Some ''Answer 1 cannot be empty. Please provide a thoughtful response.'') \<and>
   \<not> is_blank ''too short text'' \<and> word_count ''too short text'' = 3 \<and>
   validate_responses (init_model (\<lambda>t. Inr PyNone) (\<lambda>t. Inr PyNone)) [''too short text''] =
     (False, Some (''Answer 1 is too short. Please provide at least 10 words '' @
        ''(currently 3 words). Your response should be detailed and reflective.'')) \<and>
   \<not> fails_validation 10 ''ten word sentence one two three four five six seven'' \<and>
   validate_responses (init_model (\<lambda>t. Inr PyNone) (\<lambda>t. Inr PyNone))
     [''ten word sentence one two three four five six seven''] = (True, None)"
proof -
  let ?self = "init_model (\<lambda>t. Inr PyNone) (\<lambda>t. Inr PyNone)"
  have m: "min_words_per_response ?self = 10" by (simp add: init_model_def)
  have w: "word_count ''too short text'' = 3" "\<not> is_blank ''too short text''"
    "word_count ''ten word sentence one two three four five six seven'' = 10"
    "\<not> is_blank ''ten word sentence one two three four five six seven''"
    "is_blank []"
    by (simp_all add: word_count_def strip_def split_def is_space_def is_blank_def)
  have t: "nat_to_str (Suc 0) = ''1''" "nat_to_str 3 = ''3''" "int_to_str 10 = ''10''"
    by (simp_all add: int_to_str_def nat_to_str.simps)
  from validate_responses_first_failure
         [of "[[], ''ten word sentence one two three four five six seven'']" ?self 0]
       validate_responses_first_failure [of "[''too short text'']" ?self 0 10 3]
       validate_responses_first_failure
         [of "[''ten word sentence one two three four five six seven'']" ?self 0]
  show ?thesis
    by (simp add: m w t fails_validation_def)
qed

text \<open>
  The examples of the specification, and two lists that show the order of the tests.
\<close>

lemma validate_examples:
  "validate_responses (init_model sp ep) [''too short text''] =
     (False, Some (''Answer 1 is too short. Please provide at least 10 words '' @
        ''(currently 3 words). Your response should be detailed and reflective.''))"
  "validate_responses (init_model sp ep) [''too short text'', []] =
     (False, Some (''Answer 1 is too short. Please provide at least 10 words '' @
        ''(currently 3 words). Your response should be detailed and reflective.''))"
  "validate_responses (init_model sp ep)
     [''ten word sentence one two three four five six seven'', ''   ''] =
     (False, Some ''Answer 2 cannot be empty. Please provide a thoughtful response.'')"
  "validate_responses (init_model sp ep)
     [''  ten word  sentence one two three four five six seven ''] = (True, None)"
  by (simp_all add: validate_responses_def init_model_def strip_def split_def is_space_def
      empty_message_def short_message_def int_to_str_def nat_to_str.simps)

text \<open>
  Claim C9. The empty list of responses passes validation: the result is success without a
  message.
\<close>

theorem validate_responses_empty: "validate_responses self [] = (True, None)"
  by (simp add: validate_responses_def)

section \<open>Scenario selection\<close>

lemma prefix_take: "take (length xs) ys = xs \<longleftrightarrow> prefix xs ys"
  by (auto simp: prefix_def) (metis append_eq_conv_conj)

lemma contains_iff_sublist: "contains sub s \<longleftrightarrow> sublist sub s"
proof (induction s)
  case Nil
  then show ?case by simp
next
  case (Cons c cs)
  then show ?case by (simp only: contains.simps prefix_take sublist_Cons_right)
qed

lemma scenarios_distinct:
  "distinct [teacher_scenario, healthcare_scenario, management_scenario, generic_scenario]"
  by (simp add: teacher_scenario_def healthcare_scenario_def management_scenario_def
      generic_scenario_def)

lemma lead_teacher:
  "lower ''Lead Teacher'' = ''lead teacher''"
  by (simp add: lower_def lower_char_def upper_letters_def lower_letters_def)

lemma lower_examples:
  "lower ''Nurse'' = ''nurse''" "lower ''Team Lead'' = ''team lead''"
  "lower ''Software Engineer'' = ''software engineer''"
  by (simp_all add: lower_def lower_char_def upper_letters_def lower_letters_def)

text \<open>
  Claim C8. \<^const>\<open>generate_scenario\<close> lower-cases the profession and tests it for the
  keywords as substrings in the order teacher, lecturer, educator; nurse, doctor, physician;
  manager, lead, director; it returns one of four texts, which are pairwise different.
  "Lead Teacher" contains "lead" and still selects the teacher scenario, not the management
  scenario; each of the other three texts is selected by some profession. Age and gender
  play no part.
\<close>

theorem generate_scenario_priority:
  "generate_scenario a g p =
     (if sublist ''teacher'' (lower p) \<or> sublist ''lecturer'' (lower p) \<or> sublist ''educator'' (lower p)
      then teacher_scenario
      else if sublist ''nurse'' (lower p) \<or> sublist ''doctor'' (lower p) \<or> sublist ''physician'' (lower p)
      then healthcare_scenario
      else if sublist ''manager'' (lower p) \<or> sublist ''lead'' (lower p) \<or> sublist ''director'' (lower p)
      then management_scenario
      else generic_scenario) \<and>
   generate_scenario a g p \<in>
     {teacher_scenario, healthcare_scenario, management_scenario, generic_scenario} \<and>
   distinct [teacher_scenario, healthcare_scenario, management_scenario, generic_scenario] \<and>
   sublist ''lead'' (lower ''Lead Teacher'') \<and>
   generate_scenario a g ''Lead Teacher'' = teacher_scenario \<and>
   generate_scenario a g ''Lead Teacher'' \<noteq> management_scenario \<and>
   generate_scenario a g ''Nurse'' = healthcare_scenario \<and>
   generate_scenario a g ''Team Lead'' = management_scenario \<and>
   generate_scenario a g ''Software Engineer'' = generic_scenario"
proof -
  have f: "generate_scenario a g p =
     (if sublist ''teacher'' (lower p) \<or> sublist ''lecturer'' (lower p) \<or> sublist ''educator'' (lower p)
      then teacher_scenario
      else if sublist ''nurse'' (lower p) \<or> sublist ''doctor'' (lower p) \<or> sublist ''physician'' (lower p)
      then healthcare_scenario
      else if sublist ''manager'' (lower p) \<or> sublist ''lead'' (lower p) \<or> sublist ''director'' (lower p)
      then management_scenario
      else generic_scenario)" for p
    unfolding generate_scenario_def Let_def contains_iff_sublist by (rule refl)
  have m: "generate_scenario a g p \<in>
     {teacher_scenario, healthcare_scenario, management_scenario, generic_scenario}"
    unfolding f by simp
  have l: "sublist ''lead'' (lower ''Lead Teacher'')"
    unfolding lead_teacher contains_iff_sublist[symmetric] by simp
  have t: "generate_scenario a g ''Lead Teacher'' = teacher_scenario"
    unfolding generate_scenario_def Let_def lead_teacher by simp
  have n: "teacher_scenario \<noteq> management_scenario"
    using scenarios_distinct by simp
  have o: "generate_scenario a g ''Nurse'' = healthcare_scenario"
    "generate_scenario a g ''Team Lead'' = management_scenario"
    "generate_scenario a g ''Software Engineer'' = generic_scenario"
    unfolding generate_scenario_def Let_def lower_examples by simp_all
  from f[of p] m l t n o scenarios_distinct show ?thesis by (simp only: simp_thms)
qed

section \<open>Feature extraction\<close>

lemma upper_labels:
  "upper ''POSITIVE'' = ''POSITIVE''" "upper ''NEUTRAL'' = ''NEUTRAL''"
  by (simp_all add: upper_def upper_char_def lower_letters_def upper_letters_def)

lemma py_float_number: "is_number v \<Longrightarrow> \<exists>r. py_float b v = Inr r"
  by (cases v) (simp_all add: is_number_def py_float_def)

lemma py_float_errors: "py_float b v = Inl e \<Longrightarrow> e = ValueError \<or> e = TypeError"
  by (cases v) (auto simp: py_float_def split: option.splits)

lemma primary_of_Nil: "primary_of [] = (None, 0)"
  by (simp add: primary_of_def)

subsection \<open>What the extractor absorbs\<close>

text \<open>
  A sentiment result that is neither a dict nor a non-empty list becomes the pair NEUTRAL,
  0.5. An error raised by the emotion classifier leaves the emotion mapping empty and the
  primary emotion absent.
\<close>

lemma sentiment_default:
  assumes "\<And>x xs. raw \<noteq> PyList (x # xs)" "\<And>kv. raw \<noteq> PyDict kv"
  shows "sentiment_of b raw = Inr (''NEUTRAL'', 0.5)"
proof -
  have "(case raw of PyList (x # xs) \<Rightarrow> x | PyDict kv \<Rightarrow> PyDict kv
          | _ \<Rightarrow> PyDict [(PyStr ''label'', PyStr ''NEUTRAL''), (PyStr ''score'', PyFloat 0.5)]) =
        PyDict [(PyStr ''label'', PyStr ''NEUTRAL''), (PyStr ''score'', PyFloat 0.5)]"
    using assms by (cases raw) (auto split: list.splits)
  then show ?thesis
    by (simp add: sentiment_of_def py_get_def dict_get_def str_upper_def upper_labels py_float_def)
qed

lemma emotion_fault_absorbed:
  assumes "sentiment_pipeline self text = Inr raw" "sentiment_of b raw = Inr s"
    "emotion_pipeline self text = Inl e"
  shows "analyze_single_response b self text =
     Inr \<lparr>sentiment_label = fst s, sentiment_score = snd s, emotion_scores = [],
          primary_emotion = None, primary_emotion_score = 0\<rparr>"
  using assms
  by (simp add: analyze_single_response_def emotion_scores_of_def truthy_def primary_of_Nil)

lemma unrecognized_sentiment_neutral:
  assumes "sentiment_pipeline self text = Inr raw"
    "\<And>x xs. raw \<noteq> PyList (x # xs)" "\<And>kv. raw \<noteq> PyDict kv"
    "emotion_pipeline self text = Inl e"
  shows "analyze_single_response b self text =
     Inr \<lparr>sentiment_label = ''NEUTRAL'', sentiment_score = 0.5, emotion_scores = [],
          primary_emotion = None, primary_emotion_score = 0\<rparr>"
  using emotion_fault_absorbed[OF assms(1) sentiment_default[OF assms(2,3)] assms(4)] by simp

subsection \<open>Recognised shapes never raise\<close>

lemma sentiment_record_total:
  assumes "scored_record kv"
  shows "\<exists>s. sentiment_of b (PyDict kv) = Inr s" "\<exists>s. sentiment_of b (PyList (PyDict kv # xs)) = Inr s"
proof -
  obtain l where l: "dict_get kv (PyStr ''label'') (PyStr ''NEUTRAL'') = PyStr l"
    using assms by (cases "map_of kv (PyStr ''label'')")
      (auto simp: scored_record_def dict_get_def is_str_def split: pyval.splits)
  have "is_number (dict_get kv (PyStr ''score'') (PyFloat 0.5))"
    using assms by (cases "map_of kv (PyStr ''score'')")
      (auto simp: scored_record_def dict_get_def is_number_def)
  then obtain r where r: "py_float b (dict_get kv (PyStr ''score'') (PyFloat 0.5)) = Inr r"
    using py_float_number by blast
  from l r show "\<exists>s. sentiment_of b (PyDict kv) = Inr s"
    by (simp add: sentiment_of_def py_get_def str_upper_def)
  from l r show "\<exists>s. sentiment_of b (PyList (PyDict kv # xs)) = Inr s"
    by (simp add: sentiment_of_def py_get_def str_upper_def)
qed

lemma sentiment_shape_total:
  assumes "sentiment_shape raw"
  shows "\<exists>s. sentiment_of b raw = Inr s"
proof (cases "\<exists>kv. raw = PyDict kv")
  case True
  with assms sentiment_record_total(1) show ?thesis by (auto simp: sentiment_shape_def)
next
  case nd: False
  show ?thesis
  proof (cases "\<exists>x xs. raw = PyList (x # xs)")
    case True
    then obtain x xs where raw: "raw = PyList (x # xs)" by blast
    with assms obtain kv where "x = PyDict kv" "scored_record kv"
      by (auto simp: sentiment_shape_def split: pyval.splits)
    with raw sentiment_record_total(2) show ?thesis by auto
  next
    case False
    with nd have "sentiment_of b raw = Inr (''NEUTRAL'', 0.5)"
      by (intro sentiment_default) auto
    then show ?thesis by (rule exI)
  qed
qed

lemma record_entry_total:
  assumes "scored_record kv"
  shows "\<exists>r. record_entry b kv acc = Inr r"
proof -
  obtain l where l: "dict_get kv (PyStr ''label'') (PyStr []) = PyStr l"
    using assms by (cases "map_of kv (PyStr ''label'')")
      (auto simp: scored_record_def dict_get_def is_str_def split: pyval.splits)
  have "is_number (dict_get kv (PyStr ''score'') (PyFloat 0.0))"
    using assms by (cases "map_of kv (PyStr ''score'')")
      (auto simp: scored_record_def dict_get_def is_number_def)
  then obtain r where "py_float b (dict_get kv (PyStr ''score'') (PyFloat 0.0)) = Inr r"
    using py_float_number by blast
  with l show ?thesis by (simp add: record_entry_def str_lower_def Let_def)
qed

lemma guarded_float_total:
  "\<exists>r. (case py_float b v of Inl ValueError \<Rightarrow> Inr 0.0 | Inl TypeError \<Rightarrow> Inr 0.0
          | Inl e \<Rightarrow> Inl e | Inr f \<Rightarrow> Inr f) = (Inr r :: py_error + real)"
proof (cases "py_float b v")
  case (Inl e)
  with py_float_errors[OF Inl] show ?thesis by auto
next
  case (Inr f)
  then show ?thesis by simp
qed

lemma pair_entry_total:
  assumes "pair_shape xs" "2 \<le> length xs"
  shows "\<exists>r. pair_entry b xs acc = Inr r"
proof -
  have "\<exists>r. (case xs ! 1 of
                 PyDict kv \<Rightarrow> py_float b (dict_get kv (PyStr ''score'') (PyFloat 0.0))
               | _ \<Rightarrow>
                   if is_number (xs ! 1) then py_float b (xs ! 1)
                   else (case py_float b (xs ! 1) of
                           Inl ValueError \<Rightarrow> Inr 0.0
                         | Inl TypeError \<Rightarrow> Inr 0.0
                         | Inl e \<Rightarrow> Inl e
                         | Inr f \<Rightarrow> Inr f)) = Inr r"
  proof (cases "\<exists>kv. xs ! 1 = PyDict kv")
    case True
    then obtain kv where kv: "xs ! 1 = PyDict kv" by blast
    with assms have "score_ok kv" by (simp add: pair_shape_def)
    then have "is_number (dict_get kv (PyStr ''score'') (PyFloat 0.0))"
      by (cases "map_of kv (PyStr ''score'')") (auto simp: score_ok_def dict_get_def is_number_def)
    from py_float_number[OF this] kv show ?thesis by simp
  next
    case False
    then have "(case xs ! 1 of
                 PyDict kv \<Rightarrow> py_float b (dict_get kv (PyStr ''score'') (PyFloat 0.0))
               | _ \<Rightarrow>
                   if is_number (xs ! 1) then py_float b (xs ! 1)
                   else (case py_float b (xs ! 1) of
                           Inl ValueError \<Rightarrow> Inr 0.0
                         | Inl TypeError \<Rightarrow> Inr 0.0
                         | Inl e \<Rightarrow> Inl e
                         | Inr f \<Rightarrow> Inr f)) =
              (if is_number (xs ! 1) then py_float b (xs ! 1)
                   else (case py_float b (xs ! 1) of
                           Inl ValueError \<Rightarrow> Inr 0.0
                         | Inl TypeError \<Rightarrow> Inr 0.0
                         | Inl e \<Rightarrow> Inl e
                         | Inr f \<Rightarrow> Inr f))"
      by (cases "xs ! 1") simp_all
    with py_float_number[where v="xs ! 1" and b=b] guarded_float_total[where b=b and v="xs ! 1"] show ?thesis
      by (cases "is_number (xs ! 1)") auto
  qed
  then obtain r where "(case xs ! 1 of
                 PyDict kv \<Rightarrow> py_float b (dict_get kv (PyStr ''score'') (PyFloat 0.0))
               | _ \<Rightarrow>
                   if is_number (xs ! 1) then py_float b (xs ! 1)
                   else (case py_float b (xs ! 1) of
                           Inl ValueError \<Rightarrow> Inr 0.0
                         | Inl TypeError \<Rightarrow> Inr 0.0
                         | Inl e \<Rightarrow> Inl e
                         | Inr f \<Rightarrow> Inr f)) = Inr r" by blast
  then show ?thesis unfolding pair_entry_def Let_def by simp
qed

lemma item_total:
  assumes "item_shape item"
  shows "\<exists>r. (case item of
              PyDict kv \<Rightarrow> record_entry b kv acc
            | PyList xs \<Rightarrow> if length xs \<ge> 2 then pair_entry b xs acc else Inr acc
            | PyTuple xs \<Rightarrow> if length xs \<ge> 2 then pair_entry b xs acc else Inr acc
            | _ \<Rightarrow> Inr acc) = Inr r"
  using assms record_entry_total pair_entry_total
  by (cases item) (auto simp: item_shape_def)

lemma emotion_items_total:
  "list_all item_shape items \<Longrightarrow> \<exists>r. emotion_items b acc items = Inr r"
proof (induction items arbitrary: acc)
  case Nil
  then show ?case by simp
next
  case (Cons item items)
  then have "item_shape item" by simp
  from item_total[OF this, where b=b and acc=acc] obtain r where r: "(case item of
              PyDict kv \<Rightarrow> record_entry b kv acc
            | PyList xs \<Rightarrow> if length xs \<ge> 2 then pair_entry b xs acc else Inr acc
            | PyTuple xs \<Rightarrow> if length xs \<ge> 2 then pair_entry b xs acc else Inr acc
            | _ \<Rightarrow> Inr acc) = Inr r" by blast
  from Cons have "\<exists>r'. emotion_items b r items = Inr r'" by simp
  with r show ?case by (simp only: emotion_items.simps sum.case)
qed

lemma emotion_mapping_total:
  "list_all entry_shape kv \<Longrightarrow> \<exists>r. emotion_mapping b acc kv = Inr r"
proof (induction kv arbitrary: acc)
  case Nil
  then show ?case by simp
next
  case (Cons p kv)
  obtain k v where p: "p = (k, v)" by (cases p)
  from Cons have ih: "\<And>acc. \<exists>r. emotion_mapping b acc kv = Inr r" by simp
  show ?case
  proof (cases "is_number v")
    case True
    from py_float_number[OF this] obtain f where "py_float b v = Inr f" by blast
    with True p ih show ?thesis by simp
  next
    case False
    show ?thesis
    proof (cases "\<exists>kv'. v = PyDict kv'")
      case True
      then obtain kv' where v: "v = PyDict kv'" by blast
      with Cons.prems p have ok: "score_ok kv'" by (simp add: entry_shape_def)
      show ?thesis
      proof (cases "map_of kv' (PyStr ''score'')")
        case None
        with False v p ih show ?thesis by simp
      next
        case (Some sv)
        with ok have "is_number sv" by (simp add: score_ok_def)
        from py_float_number[OF this] obtain f where "py_float b sv = Inr f" by blast
        with Some False v p ih show ?thesis by simp
      qed
    next
      case nd: False
      with False p ih show ?thesis by (cases v) simp_all
    qed
  qed
qed

lemma emotion_scores_total:
  assumes "emotion_shape v"
  shows "\<exists>r. emotion_scores_of b v = Inr r"
proof (cases "truthy v")
  case False
  then show ?thesis by (simp add: emotion_scores_of_def)
next
  case True
  with assms emotion_items_total emotion_mapping_total record_entry_total show ?thesis
    by (cases v) (auto simp: emotion_scores_of_def emotion_shape_def)
qed

lemma analyze_single_response_total:
  assumes "sentiment_pipeline self text = Inr raw" "sentiment_shape raw"
    "\<And>v. emotion_pipeline self text = Inr v \<Longrightarrow> emotion_shape v"
  shows "\<exists>a. analyze_single_response b self text = Inr a"
proof -
  from sentiment_shape_total[OF assms(2)] obtain s where s: "sentiment_of b raw = Inr s" by blast
  have "emotion_shape (case emotion_pipeline self text of Inl e \<Rightarrow> PyList [] | Inr v \<Rightarrow> v)"
    using assms(3) by (cases "emotion_pipeline self text") (simp_all add: emotion_shape_def)
  from emotion_scores_total[OF this] obtain r where
    "emotion_scores_of b (case emotion_pipeline self text of Inl e \<Rightarrow> PyList [] | Inr v \<Rightarrow> v) = Inr r"
    by blast
  with assms(1) s show ?thesis by (simp add: analyze_single_response_def)
qed

subsection \<open>Malformed results that raise\<close>

text \<open>
  Claim C6 says that \<^const>\<open>analyze_single_response\<close> never raises, whatever the
  classifiers return. It raises for two malformed results. When the emotion classifier
  returns a list holding a record whose score is \<^verbatim>\<open>None\<close>, \<^verbatim>\<open>float(score)\<close> at line 208 fails
  with \<^verbatim>\<open>TypeError\<close>, outside every \<^verbatim>\<open>try\<close>. When the sentiment classifier returns a list
  whose first element is no dict, \<^verbatim>\<open>sentiment_result.get\<close> at line 177 fails with
  \<^verbatim>\<open>AttributeError\<close>.
\<close>

theorem analyze_single_response_raises:
  "analyze_single_response b
     (init_model
        (\<lambda>t. Inr (PyList [PyDict [(PyStr ''label'', PyStr ''POSITIVE''), (PyStr ''score'', PyFloat 0.99)]]))
        (\<lambda>t. Inr (PyList [PyDict [(PyStr ''label'', PyStr ''joy''), (PyStr ''score'', PyNone)]])))
     text = Inl TypeError \<and>
   analyze_single_response b (init_model (\<lambda>t. Inr (PyList [PyNone])) ep) text = Inl AttributeError"
  by (simp add: analyze_single_response_def init_model_def sentiment_of_def py_get_def dict_get_def
      str_upper_def upper_labels py_float_def emotion_scores_of_def truthy_def
      record_entry_def str_lower_def lower_def lower_char_def upper_letters_def lower_letters_def)

text \<open>
  The branch for pairs guards the same conversion (lines 221 to 224): the pair of the label
  and \<^verbatim>\<open>None\<close> yields the score 0.
\<close>

lemma pair_with_bad_score_defaults:
  "analyze_single_response b
     (init_model
        (\<lambda>t. Inr (PyList [PyDict [(PyStr ''label'', PyStr ''POSITIVE''), (PyStr ''score'', PyFloat 0.99)]]))
        (\<lambda>t. Inr (PyList [PyTuple [PyStr ''joy'', PyNone]])))
     text =
   Inr \<lparr>sentiment_label = ''POSITIVE'', sentiment_score = 0.99, emotion_scores = [(''joy'', 0)],
        primary_emotion = Some ''joy'', primary_emotion_score = 0\<rparr>"
  by (simp add: analyze_single_response_def init_model_def sentiment_of_def py_get_def dict_get_def
      str_upper_def upper_labels py_float_def emotion_scores_of_def truthy_def
      pair_entry_def str_of_def is_number_def primary_of_def max_by_score_def
      lower_def lower_char_def upper_letters_def lower_letters_def)

end
